theory Spec2Isabelle
  imports Complex_Main
begin

section \<open>Values, documents and the document store\<close>

text \<open>
  The campus-portal backend (\<^verbatim>\<open>main.py\<close>, \<^verbatim>\<open>schemas.py\<close>) keeps all of its state in a
  MongoDB database and handles every request by one or two store operations on Python
  dictionaries. A stored document is a Python \<^verbatim>\<open>dict\<close> from field names to scalar
  values: the four record shapes of \<^verbatim>\<open>schemas.py\<close> only hold strings, floats, dates,
  date-times and the store's \<^verbatim>\<open>_id\<close>.
\<close>

datatype objectid = ObjectId nat

datatype datetime = DateTime int

datatype date = Date int

datatype 'f pyval =
    VNone
  | VBool bool
  | VInt int
  | VFloat 'f
  | VStr string
  | VObjectId objectid
  | VDateTime datetime
  | VDate date

type_synonym 'f document = "string \<rightharpoonup> 'f pyval"

text \<open>A query filter and a \<^verbatim>\<open>$set\<close> argument are dict literals: lists of key/value pairs.\<close>

type_synonym 'f fields = "(string \<times> 'f pyval) list"

datatype collection = campususer | event | attendancerecord | attendanceoverride

text \<open>
  A collection is the list of its documents in insertion order (the order in which
  \<^verbatim>\<open>find_one\<close> and \<^verbatim>\<open>update_one\<close> meet them); \<open>next_id\<close> is the supply of fresh
  identifiers of the server.
\<close>

record 'f store =
  colls :: "collection \<Rightarrow> 'f document list"
  next_id :: nat

text \<open>
  The operations of Python, \<^verbatim>\<open>bson\<close> and the database server that the handlers call but
  that are no code of this repository: floating-point arithmetic on the type \<open>'f\<close> of
  floats, \<^verbatim>\<open>str\<close>, \<^verbatim>\<open>isoformat\<close>, the constructor \<^verbatim>\<open>ObjectId(s)\<close> (\<open>None\<close> when it
  raises) and the cursor's \<^verbatim>\<open>sort\<close>. Every handler takes them as the parameter \<open>rt\<close>,
  so that each theorem holds for whatever these operations compute.
\<close>

record 'f runtime =
  int_truediv :: "int \<Rightarrow> int \<Rightarrow> 'f"
  float_mul :: "'f \<Rightarrow> 'f \<Rightarrow> 'f"
  float_of_int :: "int \<Rightarrow> 'f"
  float_round :: "'f \<Rightarrow> int \<Rightarrow> 'f"
  float_le :: "'f \<Rightarrow> 'f \<Rightarrow> bool"
  py_str :: "'f pyval \<Rightarrow> string"
  isoformat :: "'f pyval \<Rightarrow> string"
  ObjectId_parse :: "string \<Rightarrow> objectid option"
  cursor_sort :: "string \<Rightarrow> int \<Rightarrow> 'f document list \<Rightarrow> 'f document list"

text \<open>
  What a handler can raise. \<open>HTTPException\<close> is the response the handler chose;
  \<open>Unhandled\<close> is any other exception leaving the handler.
\<close>

datatype exc = AttributeError | KeyError | InvalidId | ValidationError | StoreUnavailable

datatype error = HTTPException nat string | Unhandled exc

subsection \<open>Store primitives\<close>

text \<open>
  \<^verbatim>\<open>find_one\<close>, \<^verbatim>\<open>update_one\<close>, \<^verbatim>\<open>delete_one\<close>, \<^verbatim>\<open>count_documents\<close> and \<^verbatim>\<open>insert_one\<close>
  of the driver, on equality filters over scalar fields (the only filters of
  \<^verbatim>\<open>main.py\<close>). \<open>update_one\<close> returns the matched count, \<open>delete_one\<close> the deleted count.
\<close>

definition matches :: "'f fields \<Rightarrow> 'f document \<Rightarrow> bool" where
  "matches q d = list_all (\<lambda>(k, v). d k = Some v) q"

definition find_one :: "'f fields \<Rightarrow> 'f document list \<Rightarrow> 'f document option" where
  "find_one q coll = find (matches q) coll"

fun update_one :: "'f fields \<Rightarrow> 'f fields \<Rightarrow> 'f document list \<Rightarrow> nat \<times> 'f document list" where
  "update_one q upd [] = (0, [])"
| "update_one q upd (d # ds) =
     (if matches q d then (1, (d ++ map_of upd) # ds)
      else (case update_one q upd ds of (n, ds') \<Rightarrow> (n, d # ds')))"

fun delete_one :: "'f fields \<Rightarrow> 'f document list \<Rightarrow> nat \<times> 'f document list" where
  "delete_one q [] = (0, [])"
| "delete_one q (d # ds) =
     (if matches q d then (1, ds)
      else (case delete_one q ds of (n, ds') \<Rightarrow> (n, d # ds')))"

definition count_documents :: "'f fields \<Rightarrow> 'f document list \<Rightarrow> nat" where
  "count_documents q coll = length (filter (matches q) coll)"

definition insert_one :: "'f store \<Rightarrow> collection \<Rightarrow> 'f document \<Rightarrow> objectid \<times> 'f store" where
  "insert_one s c d =
     (let i = ObjectId (next_id s)
      in (i, s\<lparr>colls := (colls s)(c := colls s c @ [d(''_id'' \<mapsto> VObjectId i)]),
               next_id := Suc (next_id s)\<rparr>))"

section \<open>Helpers of main.py\<close>

text \<open>
  \<^verbatim>\<open>serialize_id\<close> (lines 29 to 39). A falsy argument (\<^verbatim>\<open>None\<close>, the result of a
  \<^verbatim>\<open>find_one\<close> without match, or the empty dict) is returned as it is. Otherwise
  \<^verbatim>\<open>_id\<close> is popped and stored under \<^verbatim>\<open>id\<close> as a string, and every value that is a
  \<^verbatim>\<open>datetime\<close> or a \<^verbatim>\<open>date\<close> is replaced by its \<^verbatim>\<open>isoformat()\<close>.
\<close>

fun is_temporal :: "'f pyval \<Rightarrow> bool" where
  "is_temporal (VDateTime t) = True"
| "is_temporal (VDate t) = True"
| "is_temporal v = False"

definition iso_value :: "'f runtime \<Rightarrow> 'f pyval \<Rightarrow> 'f pyval" where
  "iso_value rt v = (if is_temporal v then VStr (isoformat rt v) else v)"

definition serialize_id :: "'f runtime \<Rightarrow> 'f document option \<Rightarrow> 'f document option" where
  "serialize_id rt doc =
     (case doc of
        None \<Rightarrow> None
      | Some d0 \<Rightarrow>
          if d0 = Map.empty then Some d0
          else
            let d = (case d0 ''_id'' of
                       None \<Rightarrow> d0
                     | Some v \<Rightarrow> (d0(''_id'' := None))(''id'' \<mapsto> VStr (py_str rt v)))
            in Some (\<lambda>k. map_option (iso_value rt) (d k)))"

text \<open>\<^verbatim>\<open>oid\<close> (lines 42 to 46): every exception of the constructor becomes a 400.\<close>

definition oid :: "'f runtime \<Rightarrow> string \<Rightarrow> error + objectid" where
  "oid rt id_str =
     (case ObjectId_parse rt id_str of
        Some i \<Rightarrow> Inr i
      | None \<Rightarrow> Inl (HTTPException 400 ''Invalid ID format''))"

subsection \<open>The store adapter\<close>

text \<open>
  Modelled from the spec: \<^verbatim>\<open>create_document\<close> of \<^verbatim>\<open>database.py\<close>, which \<^verbatim>\<open>main.py\<close>
  imports and which is not among the sources. Section 4.1 of the specification:
  \<^verbatim>\<open>insert(collectionName, record) -> id\<close> assigns server-generated creation and update
  timestamps on the record before writing if the schema defines such fields, returns the
  new document's identifier as a string, and fails with \<^verbatim>\<open>StoreUnavailable\<close> if no
  connection is configured.
\<close>

definition stamp :: "datetime \<Rightarrow> string \<Rightarrow> 'f document \<Rightarrow> 'f document" where
  "stamp now k d = (if d k = None then d else d(k \<mapsto> VDateTime now))"

definition create_document ::
    "'f runtime \<Rightarrow> datetime \<Rightarrow> 'f store option \<Rightarrow> collection \<Rightarrow> 'f fields
      \<Rightarrow> (error + string) \<times> 'f store option" where
  "create_document rt now db c record =
     (case db of
        None \<Rightarrow> (Inl (Unhandled StoreUnavailable), None)
      | Some s \<Rightarrow>
          (case insert_one s c (stamp now ''updated_at'' (stamp now ''created_at'' (map_of record))) of
             (i, s') \<Rightarrow> (Inr (py_str rt (VObjectId i)), Some s')))"

definition set_coll :: "'f store \<Rightarrow> collection \<Rightarrow> 'f document list \<Rightarrow> 'f store" where
  "set_coll s c ds = s\<lparr>colls := (colls s)(c := ds)\<rparr>"

section \<open>Request payloads and record shapes\<close>

text \<open>
  The request models of \<^verbatim>\<open>main.py\<close> and the record shapes of \<^verbatim>\<open>schemas.py\<close>. A handler
  only runs on a payload that the framework has validated against its request model, so
  a payload is a value of the record type. \<open>..._dump\<close> is \<^verbatim>\<open>model_dump()\<close>.
\<close>

datatype role = student | teacher

fun role_str :: "role \<Rightarrow> string" where
  "role_str student = ''student''"
| "role_str teacher = ''teacher''"

datatype status = present | absent

fun status_str :: "status \<Rightarrow> string" where
  "status_str present = ''present''"
| "status_str absent = ''absent''"

fun opt_str :: "string option \<Rightarrow> 'f pyval" where
  "opt_str None = VNone"
| "opt_str (Some x) = VStr x"

record DemoLoginRequest =
  dl_role :: role
  dl_name :: string
  dl_email :: string
  dl_mobile :: "string option"
  dl_roll :: "string option"

definition DemoLoginRequest_dump :: "DemoLoginRequest \<Rightarrow> 'f fields" where
  "DemoLoginRequest_dump p =
     [(''role'', VStr (role_str (dl_role p))),
      (''name'', VStr (dl_name p)),
      (''email'', VStr (dl_email p)),
      (''mobile'', opt_str (dl_mobile p)),
      (''roll'', opt_str (dl_roll p))]"

text \<open>
  \<^verbatim>\<open>CampusUser(**data)\<close>: the model keeps the fields it declares and ignores any other key
  (here \<^verbatim>\<open>updated_at\<close>); the values come from a validated request, so it does not raise.
\<close>

definition CampusUser :: "'f fields \<Rightarrow> 'f fields" where
  "CampusUser data =
     filter (\<lambda>(k, v). List.member [''role'', ''name'', ''email'', ''mobile'', ''roll''] k) data"

record UpdateUserRequest =
  uu_name :: "string option"
  uu_email :: "string option"
  uu_mobile :: "string option"
  uu_roll :: "string option"

text \<open>\<^verbatim>\<open>model_dump(exclude_none=True)\<close>: only the fields that were supplied.\<close>

definition UpdateUserRequest_dump_exclude_none :: "UpdateUserRequest \<Rightarrow> 'f fields" where
  "UpdateUserRequest_dump_exclude_none p =
     List.map_filter (\<lambda>(k, v). map_option (\<lambda>x. (k, VStr x)) v)
       [(''name'', uu_name p), (''email'', uu_email p),
        (''mobile'', uu_mobile p), (''roll'', uu_roll p)]"

record EventCreateRequest =
  ev_title :: string
  ev_description :: "string option"
  ev_date :: datetime
  ev_location :: "string option"
  ev_created_by_role :: role

definition EventCreateRequest_dump :: "EventCreateRequest \<Rightarrow> 'f fields" where
  "EventCreateRequest_dump p =
     [(''title'', VStr (ev_title p)),
      (''description'', opt_str (ev_description p)),
      (''date'', VDateTime (ev_date p)),
      (''location'', opt_str (ev_location p)),
      (''created_by_role'', VStr (role_str (ev_created_by_role p)))]"

record AttendanceMark =
  am_roll :: string
  am_status :: status

record AttendanceMarkRequest =
  amr_date :: date
  amr_entries :: "AttendanceMark list"

text \<open>
  \<^verbatim>\<open>AttendanceRecord(roll=e.roll, status=e.status, attendance_date=payload.date,
  marked_by_role="teacher")\<close>, as the fields that \<^verbatim>\<open>create_document\<close> writes.
\<close>

definition AttendanceRecord :: "AttendanceMark \<Rightarrow> date \<Rightarrow> 'f fields" where
  "AttendanceRecord e d =
     [(''roll'', VStr (am_roll e)),
      (''attendance_date'', VDate d),
      (''status'', VStr (status_str (am_status e))),
      (''marked_by_role'', VStr ''teacher'')]"

record 'f ManualPercentageRequest =
  mp_roll :: string
  mp_manual_percentage :: 'f

definition ManualPercentageRequest_dump :: "'f ManualPercentageRequest \<Rightarrow> 'f fields" where
  "ManualPercentageRequest_dump p =
     [(''roll'', VStr (mp_roll p)), (''manual_percentage'', VFloat (mp_manual_percentage p))]"

text \<open>
  \<^verbatim>\<open>AttendanceOverride(**payload.model_dump())\<close>: the only model with a range constraint,
  \<^verbatim>\<open>manual_percentage: float = Field(..., ge=0, le=100)\<close>. The constructor raises a
  validation error when the value is out of range.
\<close>

definition in_range :: "'f runtime \<Rightarrow> 'f \<Rightarrow> bool" where
  "in_range rt x = (float_le rt (float_of_int rt 0) x \<and> float_le rt x (float_of_int rt 100))"

definition AttendanceOverride :: "'f runtime \<Rightarrow> 'f ManualPercentageRequest \<Rightarrow> exc + 'f fields" where
  "AttendanceOverride rt p =
     (if in_range rt (mp_manual_percentage p) then Inr (ManualPercentageRequest_dump p)
      else Inl ValidationError)"

section \<open>Route handlers\<close>

text \<open>
  A handler takes the runtime, the clock reading of \<^verbatim>\<open>datetime.utcnow()\<close> where it uses
  one, the global \<^verbatim>\<open>db\<close> (\<open>None\<close> when no connection is configured) and its arguments,
  and returns what it returned or raised together with the store it leaves behind.
\<close>

datatype 'f result =
    Doc "'f document option"
  | Docs "'f document option list"
  | Updated bool
  | Deleted bool
  | Inserted nat "string list"
  | Summary string nat nat 'f

text \<open>\<^verbatim>\<open>demo_login\<close> (lines 122 to 141).\<close>

definition demo_login ::
    "'f runtime \<Rightarrow> datetime \<Rightarrow> 'f store option \<Rightarrow> DemoLoginRequest
      \<Rightarrow> (error + 'f result) \<times> 'f store option" where
  "demo_login rt now db payload =
     (case db of
        None \<Rightarrow> (Inl (HTTPException 500 ''Database not configured''), None)
      | Some s \<Rightarrow>
          let existing = find_one [(''email'', VStr (dl_email payload))] (colls s campususer);
              data = DemoLoginRequest_dump payload @ [(''updated_at'', VDateTime now)];
              inserted =
                (case create_document rt now (Some s) campususer (CampusUser data) of
                   (Inl e, db') \<Rightarrow> (Inl e, db')
                 | (Inr user_id, db') \<Rightarrow>
                     (case ObjectId_parse rt user_id of
                        None \<Rightarrow> (Inl (Unhandled InvalidId), db')
                      | Some i \<Rightarrow>
                          (Inr (Doc (serialize_id rt
                             (case db' of
                                None \<Rightarrow> None
                              | Some s' \<Rightarrow> find_one [(''_id'', VObjectId i)] (colls s' campususer)))),
                           db')))
          in (case existing of
                None \<Rightarrow> inserted
              | Some e \<Rightarrow>
                  if e = Map.empty then inserted
                  else
                    (case e ''_id'' of
                       None \<Rightarrow> (Inl (Unhandled KeyError), Some s)
                     | Some i \<Rightarrow>
                         (case update_one [(''_id'', i)] data (colls s campususer) of
                            (n, us) \<Rightarrow>
                              let s' = set_coll s campususer us
                              in (Inr (Doc (serialize_id rt
                                    (find_one [(''_id'', i)] (colls s' campususer)))),
                                  Some s')))))"

text \<open>\<^verbatim>\<open>update_user\<close> (lines 155 to 167).\<close>

definition update_user ::
    "'f runtime \<Rightarrow> datetime \<Rightarrow> 'f store option \<Rightarrow> string \<Rightarrow> UpdateUserRequest
      \<Rightarrow> (error + 'f result) \<times> 'f store option" where
  "update_user rt now db user_id payload =
     (case db of
        None \<Rightarrow> (Inl (HTTPException 500 ''Database not configured''), None)
      | Some s \<Rightarrow>
          let updates = UpdateUserRequest_dump_exclude_none payload
          in if updates = [] then (Inr (Updated False), Some s)
             else
               let updates = updates @ [(''updated_at'', VDateTime now)]
               in (case oid rt user_id of
                     Inl e \<Rightarrow> (Inl e, Some s)
                   | Inr i \<Rightarrow>
                       (case update_one [(''_id'', VObjectId i)] updates (colls s campususer) of
                          (n, us) \<Rightarrow>
                            let s' = set_coll s campususer us
                            in if n = 0 then (Inl (HTTPException 404 ''User not found''), Some s')
                               else
                                 (case oid rt user_id of
                                    Inl e \<Rightarrow> (Inl e, Some s')
                                  | Inr j \<Rightarrow>
                                      (Inr (Doc (serialize_id rt
                                         (find_one [(''_id'', VObjectId j)] (colls s' campususer)))),
                                       Some s')))))"

text \<open>
  \<^verbatim>\<open>list_events\<close> (lines 182 to 185). The limit has been checked by the framework
  (1 to 500). There is no test of \<^verbatim>\<open>db\<close>: on \<^verbatim>\<open>None\<close> the attribute access
  \<^verbatim>\<open>db.event\<close> raises \<^verbatim>\<open>AttributeError\<close>.
\<close>

definition list_events ::
    "'f runtime \<Rightarrow> 'f store option \<Rightarrow> nat \<Rightarrow> (error + 'f result) \<times> 'f store option" where
  "list_events rt db limit =
     (case db of
        None \<Rightarrow> (Inl (Unhandled AttributeError), None)
      | Some s \<Rightarrow>
          (Inr (Docs (map (\<lambda>d. serialize_id rt (Some d))
                  (take limit (cursor_sort rt ''date'' 1 (colls s event))))),
           Some s))"

text \<open>
  \<^verbatim>\<open>create_event\<close> (lines 188 to 192). \<^verbatim>\<open>Event(**payload.model_dump())\<close> has the fields
  of the request and does not raise.
\<close>

definition create_event ::
    "'f runtime \<Rightarrow> datetime \<Rightarrow> 'f store option \<Rightarrow> EventCreateRequest
      \<Rightarrow> (error + 'f result) \<times> 'f store option" where
  "create_event rt now db payload =
     (case create_document rt now db event (EventCreateRequest_dump payload) of
        (Inl e, db') \<Rightarrow> (Inl e, db')
      | (Inr event_id, db') \<Rightarrow>
          (case db' of
             None \<Rightarrow> (Inl (Unhandled AttributeError), db')
           | Some s' \<Rightarrow>
               (case ObjectId_parse rt event_id of
                  None \<Rightarrow> (Inl (Unhandled InvalidId), db')
                | Some i \<Rightarrow>
                    (Inr (Doc (serialize_id rt
                       (find_one [(''_id'', VObjectId i)] (colls s' event)))),
                     db'))))"

text \<open>
  \<^verbatim>\<open>update_event\<close> (lines 195 to 201) and \<^verbatim>\<open>delete_event\<close> (lines 204 to 209). Python
  evaluates \<^verbatim>\<open>db.event.update_one\<close> before the arguments of the call, so a missing store
  raises before \<^verbatim>\<open>oid\<close> runs; with a store, \<^verbatim>\<open>oid\<close> runs before the store operation.
\<close>

definition update_event ::
    "'f runtime \<Rightarrow> 'f store option \<Rightarrow> string \<Rightarrow> EventCreateRequest
      \<Rightarrow> (error + 'f result) \<times> 'f store option" where
  "update_event rt db event_id payload =
     (case db of
        None \<Rightarrow> (Inl (Unhandled AttributeError), None)
      | Some s \<Rightarrow>
          (case oid rt event_id of
             Inl e \<Rightarrow> (Inl e, Some s)
           | Inr i \<Rightarrow>
               (case update_one [(''_id'', VObjectId i)] (EventCreateRequest_dump payload)
                       (colls s event) of
                  (n, es) \<Rightarrow>
                    let s' = set_coll s event es
                    in if n = 0 then (Inl (HTTPException 404 ''Event not found''), Some s')
                       else
                         (case oid rt event_id of
                            Inl e \<Rightarrow> (Inl e, Some s')
                          | Inr j \<Rightarrow>
                              (Inr (Doc (serialize_id rt
                                 (find_one [(''_id'', VObjectId j)] (colls s' event)))),
                               Some s')))))"

definition delete_event ::
    "'f runtime \<Rightarrow> 'f store option \<Rightarrow> string \<Rightarrow> (error + 'f result) \<times> 'f store option" where
  "delete_event rt db event_id =
     (case db of
        None \<Rightarrow> (Inl (Unhandled AttributeError), None)
      | Some s \<Rightarrow>
          (case oid rt event_id of
             Inl e \<Rightarrow> (Inl e, Some s)
           | Inr i \<Rightarrow>
               (case delete_one [(''_id'', VObjectId i)] (colls s event) of
                  (n, es) \<Rightarrow>
                    let s' = set_coll s event es
                    in if n = 0 then (Inl (HTTPException 404 ''Event not found''), Some s')
                       else (Inr (Deleted True), Some s'))))"

text \<open>
  \<^verbatim>\<open>mark_attendance\<close> (lines 226 to 235). The loop inserts the entries one by one and
  stops at the first exception, which keeps what was inserted before it.
\<close>

fun mark_entries ::
    "'f runtime \<Rightarrow> datetime \<Rightarrow> date \<Rightarrow> AttendanceMark list \<Rightarrow> string list \<Rightarrow> 'f store option
      \<Rightarrow> (error + string list) \<times> 'f store option" where
  "mark_entries rt now d [] inserted_ids db = (Inr inserted_ids, db)"
| "mark_entries rt now d (e # es) inserted_ids db =
     (case create_document rt now db attendancerecord (AttendanceRecord e d) of
        (Inl err, db') \<Rightarrow> (Inl err, db')
      | (Inr ins_id, db') \<Rightarrow> mark_entries rt now d es (inserted_ids @ [ins_id]) db')"

definition mark_attendance ::
    "'f runtime \<Rightarrow> datetime \<Rightarrow> 'f store option \<Rightarrow> AttendanceMarkRequest
      \<Rightarrow> (error + 'f result) \<times> 'f store option" where
  "mark_attendance rt now db payload =
     (if amr_entries payload = [] then (Inl (HTTPException 400 ''No entries to mark''), db)
      else
        (case mark_entries rt now (amr_date payload) (amr_entries payload) [] db of
           (Inl err, db') \<Rightarrow> (Inl err, db')
         | (Inr inserted_ids, db') \<Rightarrow> (Inr (Inserted (length inserted_ids) inserted_ids), db')))"

text \<open>\<^verbatim>\<open>recent_attendance\<close> (lines 238 to 241); the limit is between 1 and 200.\<close>

definition recent_attendance ::
    "'f runtime \<Rightarrow> 'f store option \<Rightarrow> nat \<Rightarrow> (error + 'f result) \<times> 'f store option" where
  "recent_attendance rt db limit =
     (case db of
        None \<Rightarrow> (Inl (Unhandled AttributeError), None)
      | Some s \<Rightarrow>
          (Inr (Docs (map (\<lambda>d. serialize_id rt (Some d))
                  (take limit (cursor_sort rt ''attendance_date'' (- 1) (colls s attendancerecord))))),
           Some s))"

text \<open>
  \<^verbatim>\<open>set_manual_percentage\<close> (lines 249 to 258). The request model
  \<^verbatim>\<open>ManualPercentageRequest\<close> declares \<^verbatim>\<open>manual_percentage: float\<close> without a range. The
  branch for an existing override writes the request's fields with \<^verbatim>\<open>$set\<close>; only the
  branch for a new override builds an \<^verbatim>\<open>AttendanceOverride\<close>.
\<close>

definition set_manual_percentage ::
    "'f runtime \<Rightarrow> datetime \<Rightarrow> 'f store option \<Rightarrow> 'f ManualPercentageRequest
      \<Rightarrow> (error + 'f result) \<times> 'f store option" where
  "set_manual_percentage rt now db payload =
     (case db of
        None \<Rightarrow> (Inl (Unhandled AttributeError), None)
      | Some s \<Rightarrow>
          let existing = find_one [(''roll'', VStr (mp_roll payload))] (colls s attendanceoverride);
              inserted =
                (case AttendanceOverride rt payload of
                   Inl x \<Rightarrow> (Inl (Unhandled x), Some s)
                 | Inr record \<Rightarrow>
                     (case create_document rt now (Some s) attendanceoverride record of
                        (Inl e, db') \<Rightarrow> (Inl e, db')
                      | (Inr ins_id, db') \<Rightarrow>
                          (case ObjectId_parse rt ins_id of
                             None \<Rightarrow> (Inl (Unhandled InvalidId), db')
                           | Some i \<Rightarrow>
                               (Inr (Doc (serialize_id rt
                                  (case db' of
                                     None \<Rightarrow> None
                                   | Some s' \<Rightarrow>
                                       find_one [(''_id'', VObjectId i)] (colls s' attendanceoverride)))),
                                db'))))
          in (case existing of
                None \<Rightarrow> inserted
              | Some e \<Rightarrow>
                  if e = Map.empty then inserted
                  else
                    (case e ''_id'' of
                       None \<Rightarrow> (Inl (Unhandled KeyError), Some s)
                     | Some i \<Rightarrow>
                         (case update_one [(''_id'', i)] (ManualPercentageRequest_dump payload)
                                 (colls s attendanceoverride) of
                            (n, os) \<Rightarrow>
                              let s' = set_coll s attendanceoverride os
                              in (Inr (Doc (serialize_id rt
                                    (find_one [(''_id'', i)] (colls s' attendanceoverride)))),
                                  Some s')))))"

text \<open>
  \<^verbatim>\<open>attendance_summary\<close> (lines 261 to 276). \<open>number\<close> is the test
  \<^verbatim>\<open>isinstance(v, (int, float))\<close> followed by \<^verbatim>\<open>float(v)\<close>; a Python \<^verbatim>\<open>bool\<close> is an \<^verbatim>\<open>int\<close>.
  The literals \<^verbatim>\<open>100.0\<close> and \<^verbatim>\<open>0.0\<close> are the floats of the integers 100 and 0.
\<close>

fun number :: "'f runtime \<Rightarrow> 'f pyval option \<Rightarrow> 'f option" where
  "number rt (Some (VFloat x)) = Some x"
| "number rt (Some (VInt i)) = Some (float_of_int rt i)"
| "number rt (Some (VBool b)) = Some (float_of_int rt (if b then 1 else 0))"
| "number rt v = None"

definition attendance_summary ::
    "'f runtime \<Rightarrow> 'f store option \<Rightarrow> string \<Rightarrow> (error + 'f result) \<times> 'f store option" where
  "attendance_summary rt db roll =
     (case db of
        None \<Rightarrow> (Inl (Unhandled AttributeError), None)
      | Some s \<Rightarrow>
          let total_present =
                count_documents [(''roll'', VStr roll), (''status'', VStr ''present'')]
                  (colls s attendancerecord);
              total_absent =
                count_documents [(''roll'', VStr roll), (''status'', VStr ''absent'')]
                  (colls s attendancerecord);
              total = total_present + total_absent;
              percentage =
                (if total > 0
                 then float_mul rt (int_truediv rt (int total_present) (int total))
                        (float_of_int rt 100)
                 else float_of_int rt 0);
              override = find_one [(''roll'', VStr roll)] (colls s attendanceoverride);
              percentage =
                (case override of
                   None \<Rightarrow> percentage
                 | Some ov \<Rightarrow>
                     if ov = Map.empty then percentage
                     else (case number rt (ov ''manual_percentage'') of
                             None \<Rightarrow> percentage
                           | Some x \<Rightarrow> x))
          in (Inr (Summary roll total_present total_absent (float_round rt percentage 2)),
              Some s))"

section \<open>Store invariants and an executable runtime\<close>

text \<open>
  The server gives every document of a collection an \<^verbatim>\<open>_id\<close> of its own, taken from the
  identifiers it has not handed out yet.
\<close>

fun id_below :: "nat \<Rightarrow> 'f pyval option \<Rightarrow> bool" where
  "id_below m (Some (VObjectId (ObjectId n))) = (n < m)"
| "id_below m v = False"

definition wf_coll :: "'f store \<Rightarrow> collection \<Rightarrow> bool" where
  "wf_coll s c =
     (distinct (map (\<lambda>d. d ''_id'') (colls s c)) \<and>
      list_all (\<lambda>d. id_below (next_id s) (d ''_id'')) (colls s c))"

definition empty_store :: "'f store" where
  "empty_store = \<lparr>colls = (\<lambda>c. []), next_id = 0\<rparr>"

text \<open>
  A runtime on which the handlers can be run: floats are exact rationals, \<^verbatim>\<open>round\<close>
  rounds half to even, an identifier is written as 24 hexadecimal digits, and the cursor
  sorts on the number inside a date or date-time.
\<close>

definition round_half_even :: "rat \<Rightarrow> int" where
  "round_half_even y =
     (let f = \<lfloor>y\<rfloor>; r = y - of_int f
      in if r < 1 / 2 then f else if 1 / 2 < r then f + 1 else if even f then f else f + 1)"

definition round_digits :: "rat \<Rightarrow> int \<Rightarrow> rat" where
  "round_digits x n =
     (if 0 \<le> n then of_int (round_half_even (x * 10 ^ nat n)) / 10 ^ nat n
      else of_int (round_half_even (x / 10 ^ nat (- n))) * 10 ^ nat (- n))"

definition hex_digit :: "char \<Rightarrow> nat option" where
  "hex_digit c =
     (let n = (of_char c :: nat)
      in if 48 \<le> n \<and> n \<le> 57 then Some (n - 48)
         else if 97 \<le> n \<and> n \<le> 102 then Some (n - 87)
         else if 65 \<le> n \<and> n \<le> 70 then Some (n - 55)
         else None)"

fun hex_value :: "nat \<Rightarrow> string \<Rightarrow> nat option" where
  "hex_value acc [] = Some acc"
| "hex_value acc (c # cs) =
     (case hex_digit c of None \<Rightarrow> None | Some d \<Rightarrow> hex_value (16 * acc + d) cs)"

definition parse_hex24 :: "string \<Rightarrow> objectid option" where
  "parse_hex24 x = (if length x = 24 then map_option ObjectId (hex_value 0 x) else None)"

fun hex_string :: "nat \<Rightarrow> nat \<Rightarrow> string" where
  "hex_string 0 n = []"
| "hex_string (Suc k) n = hex_string k (n div 16) @ [''0123456789abcdef'' ! (n mod 16)]"

fun decimal :: "nat \<Rightarrow> nat \<Rightarrow> string" where
  "decimal 0 n = []"
| "decimal (Suc k) n = decimal k (n div 10) @ [''0123456789'' ! (n mod 10)]"

fun example_str :: "rat pyval \<Rightarrow> string" where
  "example_str (VObjectId (ObjectId n)) = hex_string 24 n"
| "example_str (VStr x) = x"
| "example_str VNone = ''None''"
| "example_str (VBool b) = (if b then ''True'' else ''False'')"
| "example_str (VInt i) = (if i < 0 then ''-'' else []) @ decimal 20 (nat \<bar>i\<bar>)"
| "example_str (VFloat x) = ''float''"
| "example_str (VDateTime (DateTime t)) = ''T'' @ decimal 20 (nat \<bar>t\<bar>)"
| "example_str (VDate (Date t)) = ''D'' @ decimal 20 (nat \<bar>t\<bar>)"

fun sort_number :: "rat pyval option \<Rightarrow> int" where
  "sort_number (Some (VDateTime (DateTime t))) = t"
| "sort_number (Some (VDate (Date t))) = t"
| "sort_number v = 0"

definition example_sort :: "string \<Rightarrow> int \<Rightarrow> rat document list \<Rightarrow> rat document list" where
  "example_sort k dir ds = sort_key (\<lambda>d. dir * sort_number (d k)) ds"

definition example_runtime :: "rat runtime" where
  "example_runtime =
     \<lparr>int_truediv = (\<lambda>a b. of_int a / of_int b),
      float_mul = (\<lambda>x y. x * y),
      float_of_int = of_int,
      float_round = round_digits,
      float_le = (\<lambda>x y. x \<le> y),
      py_str = example_str,
      isoformat = example_str,
      ObjectId_parse = parse_hex24,
      cursor_sort = example_sort\<rparr>"

text \<open>
  Two ways of writing a store down: \<open>appended s c ds\<close> is \<open>s\<close> after the documents \<open>ds\<close>
  have been inserted into \<open>c\<close>, and \<open>stored_record d e k\<close> is the document that the
  attendance entry \<open>e\<close> of date \<open>d\<close> becomes under the identifier \<open>k\<close>.
\<close>

definition appended :: "'f store \<Rightarrow> collection \<Rightarrow> 'f document list \<Rightarrow> 'f store" where
  "appended s c ds =
     s\<lparr>colls := (colls s)(c := colls s c @ ds), next_id := next_id s + length ds\<rparr>"

definition stored_record :: "date \<Rightarrow> AttendanceMark \<Rightarrow> nat \<Rightarrow> 'f document" where
  "stored_record d e k = (map_of (AttendanceRecord e d))(''_id'' \<mapsto> VObjectId (ObjectId k))"

text \<open>
  Example stores: roll \<^verbatim>\<open>R1\<close> marked present three times and absent once, and the same
  with an override of 42.5 for the roll.
\<close>

definition example_marks :: "AttendanceMark list" where
  "example_marks =
     [\<lparr>am_roll = ''R1'', am_status = present\<rparr>, \<lparr>am_roll = ''R1'', am_status = present\<rparr>,
      \<lparr>am_roll = ''R1'', am_status = present\<rparr>, \<lparr>am_roll = ''R1'', am_status = absent\<rparr>]"

definition attendance_store :: "rat store" where
  "attendance_store =
     appended empty_store attendancerecord
       (map2 (stored_record (Date 9)) example_marks [0, 1, 2, 3])"

definition override_store :: "rat store" where
  "override_store =
     appended attendance_store attendanceoverride
       [[''roll'' \<mapsto> VStr ''R1'', ''manual_percentage'' \<mapsto> VFloat (85 / 2),
         ''_id'' \<mapsto> VObjectId (ObjectId 4)]]"

text \<open>
  A store with one user who has a mobile number and a roll, and three demo-login
  payloads.
\<close>

definition user_store :: "rat store" where
  "user_store =
     appended empty_store campususer
       [[''role'' \<mapsto> VStr ''student'', ''name'' \<mapsto> VStr ''Ann'',
         ''email'' \<mapsto> VStr ''ann@campus.edu'', ''mobile'' \<mapsto> VStr ''555'',
         ''roll'' \<mapsto> VStr ''R1'', ''_id'' \<mapsto> VObjectId (ObjectId 0)]]"

definition ann_full :: DemoLoginRequest where
  "ann_full =
     \<lparr>dl_role = student, dl_name = ''Ann'', dl_email = ''ann@campus.edu'',
      dl_mobile = Some ''555'', dl_roll = Some ''R1''\<rparr>"

definition ann_short :: DemoLoginRequest where
  "ann_short =
     \<lparr>dl_role = student, dl_name = ''Ann'', dl_email = ''ann@campus.edu'',
      dl_mobile = None, dl_roll = None\<rparr>"

definition bob :: DemoLoginRequest where
  "bob =
     \<lparr>dl_role = teacher, dl_name = ''Bob'', dl_email = ''bob@campus.edu'',
      dl_mobile = None, dl_roll = None\<rparr>"

section \<open>Properties\<close>

lemma iso_value_idem: "iso_value rt (iso_value rt v) = iso_value rt v"
  by (cases v) (simp_all add: iso_value_def)

text \<open>
  Claim C7. Serialization is idempotent: for every document (and for the missing
  document \<open>None\<close>), applying \<open>serialize_id\<close> to its own output gives the same result as
  applying it once.
\<close>

theorem serialize_id_idempotent:
  "serialize_id rt (serialize_id rt doc) = serialize_id rt doc"
proof (cases doc)
  case None
  then show ?thesis by (simp add: serialize_id_def)
next
  case (Some d0)
  show ?thesis
  proof (cases "d0 = Map.empty")
    case True
    with Some show ?thesis by (simp add: serialize_id_def)
  next
    case False
    define d where "d = (case d0 ''_id'' of
                       None \<Rightarrow> d0
                     | Some v \<Rightarrow> (d0(''_id'' := None))(''id'' \<mapsto> VStr (py_str rt v)))"
    define d1 where "d1 = (\<lambda>k. map_option (iso_value rt) (d k))"
    have once: "serialize_id rt doc = Some d1"
      using Some False by (simp add: serialize_id_def d_def d1_def)
    have no_id: "d ''_id'' = None"
      by (simp add: d_def split: option.splits)
    then have no_id1: "d1 ''_id'' = None"
      by (simp add: d1_def)
    have again: "(\<lambda>k. map_option (iso_value rt) (d1 k)) = d1"
      by (rule ext) (simp add: d1_def option.map_comp comp_def iso_value_idem)
    have "serialize_id rt (Some d1) = Some d1"
      using no_id1 again by (simp add: serialize_id_def)
    with once show ?thesis by simp
  qed
qed

subsection \<open>Facts about the store primitives\<close>

lemma set_coll_same: "set_coll s c (colls s c) = s"
  by (simp add: set_coll_def)

lemma colls_set_coll: "colls (set_coll s c ds) c' = (if c' = c then ds else colls s c')"
  by (simp add: set_coll_def)

lemma next_id_set_coll: "next_id (set_coll s c ds) = next_id s"
  by (simp add: set_coll_def)

lemma matches_id: "matches [(''_id'', v)] d = (d ''_id'' = Some v)"
  by (simp add: matches_def)

lemma update_one_no_match:
  "list_all (\<lambda>d. \<not> matches q d) ds \<Longrightarrow> update_one q upd ds = (0, ds)"
  by (induction ds) simp_all

lemma delete_one_no_match:
  "list_all (\<lambda>d. \<not> matches q d) ds \<Longrightarrow> delete_one q ds = (0, ds)"
  by (induction ds) simp_all

lemma dump_exclude_none_empty:
  "(UpdateUserRequest_dump_exclude_none up = []) =
     (uu_name up = None \<and> uu_email up = None \<and> uu_mobile up = None \<and> uu_roll up = None)"
  by (cases "uu_name up"; cases "uu_email up"; cases "uu_mobile up"; cases "uu_roll up")
     (simp_all add: UpdateUserRequest_dump_exclude_none_def List.map_filter_def)

subsection \<open>Handlers without a configured store\<close>

text \<open>
  Claim C5. With no store connection configured, every handler that performs a store
  operation should answer with a 500-class response of its own. \<open>demo_login\<close> and
  \<open>update_user\<close> test \<^verbatim>\<open>db is None\<close> and raise that response; \<open>list_events\<close> has no
  such test and leaves with an unhandled \<^verbatim>\<open>AttributeError\<close>.
\<close>

theorem list_events_without_store:
  "demo_login rt now None p = (Inl (HTTPException 500 ''Database not configured''), None) \<and>
   update_user rt now None user_id up
     = (Inl (HTTPException 500 ''Database not configured''), None) \<and>
   list_events rt None limit = (Inl (Unhandled AttributeError), None)"
  by (simp add: demo_login_def update_user_def list_events_def)

lemma other_handlers_without_store:
  "update_event rt None event_id ev = (Inl (Unhandled AttributeError), None)"
  "delete_event rt None event_id = (Inl (Unhandled AttributeError), None)"
  "recent_attendance rt None limit = (Inl (Unhandled AttributeError), None)"
  "set_manual_percentage rt now None mp = (Inl (Unhandled AttributeError), None)"
  "attendance_summary rt None roll = (Inl (Unhandled AttributeError), None)"
  by (simp_all add: update_event_def delete_event_def recent_attendance_def
      set_manual_percentage_def attendance_summary_def)

subsection \<open>Identifiers in the path\<close>

text \<open>
  Claim C8. With a store configured, for every well-formed event id that is the \<^verbatim>\<open>_id\<close>
  of no event, \<open>update_event\<close> raises 404 and leaves the store as it was, and
  \<open>delete_event\<close> raises 404 as well.
\<close>

theorem event_not_found:
  assumes wellformed: "ObjectId_parse rt event_id = Some i"
    and absent: "\<forall>d \<in> set (colls s event). d ''_id'' \<noteq> Some (VObjectId i)"
  shows "update_event rt (Some s) event_id payload
           = (Inl (HTTPException 404 ''Event not found''), Some s) \<and>
         delete_event rt (Some s) event_id
           = (Inl (HTTPException 404 ''Event not found''), Some s)"
proof -
  have none: "list_all (\<lambda>d. \<not> matches [(''_id'', VObjectId i)] d) (colls s event)"
    using absent by (simp add: list_all_iff matches_id)
  have decoded: "oid rt event_id = Inr i"
    using wellformed by (simp add: oid_def)
  have "update_event rt (Some s) event_id payload
          = (Inl (HTTPException 404 ''Event not found''), Some s)"
    by (simp add: update_event_def decoded update_one_no_match [OF none] set_coll_same)
  moreover have "delete_event rt (Some s) event_id
          = (Inl (HTTPException 404 ''Event not found''), Some s)"
    by (simp add: delete_event_def decoded delete_one_no_match [OF none] set_coll_same)
  ultimately show ?thesis by simp
qed

theorem event_not_found_witness:
  "update_event example_runtime (Some empty_store) ''000000000000000000000001''
      \<lparr>ev_title = ''Fair'', ev_description = None, ev_date = DateTime 7,
       ev_location = None, ev_created_by_role = teacher\<rparr>
     = (Inl (HTTPException 404 ''Event not found''), Some empty_store) \<and>
   delete_event example_runtime (Some empty_store) ''000000000000000000000001''
     = (Inl (HTTPException 404 ''Event not found''), Some empty_store)"
proof -
  have p: "ObjectId_parse example_runtime ''000000000000000000000001'' = Some (ObjectId 1)"
    by (simp add: example_runtime_def parse_hex24_def hex_digit_def)
  have a: "\<forall>d \<in> set (colls (empty_store :: rat store) event).
             d ''_id'' \<noteq> Some (VObjectId (ObjectId 1))"
    by (simp add: empty_store_def)
  show ?thesis using event_not_found [OF p a] by simp
qed

text \<open>
  Claim C9. With a store configured, an \<open>update_user\<close> request that supplies none of
  \<^verbatim>\<open>name\<close>, \<^verbatim>\<open>email\<close>, \<^verbatim>\<open>mobile\<close>, \<^verbatim>\<open>roll\<close> returns \<^verbatim>\<open>{"updated": False}\<close> and
  leaves the whole store, so every user record and its \<^verbatim>\<open>updated_at\<close>, as it was,
  whatever the id in the path.
\<close>

theorem update_user_empty_unchanged:
  "update_user rt now (Some s) user_id
     \<lparr>uu_name = None, uu_email = None, uu_mobile = None, uu_roll = None\<rparr>
   = (Inr (Updated False), Some s)"
  by (simp add: update_user_def dump_exclude_none_empty)

text \<open>
  Claim C10, as stated, asks for a 400 on every malformed path id, also for an
  \<open>update_user\<close> request with an empty field subset. That request returns before the id
  is decoded.
\<close>

theorem update_user_invalid_id_counterexample:
  "ObjectId_parse example_runtime ''not-an-id'' = None \<and>
   fst (update_user example_runtime (DateTime 0) (Some empty_store) ''not-an-id''
          \<lparr>uu_name = None, uu_email = None, uu_mobile = None, uu_roll = None\<rparr>)
     = Inr (Updated False) \<and>
   fst (update_user example_runtime (DateTime 0) (Some empty_store) ''not-an-id''
          \<lparr>uu_name = None, uu_email = None, uu_mobile = None, uu_roll = None\<rparr>)
     \<noteq> Inl (HTTPException 400 ''Invalid ID format'')"
  by (simp add: update_user_def dump_exclude_none_empty example_runtime_def parse_hex24_def)

text \<open>
  Claim C10, amended. With a store configured and a path id that \<^verbatim>\<open>ObjectId\<close> rejects:
  \<open>update_event\<close> and \<open>delete_event\<close> raise 400 with the detail \<^verbatim>\<open>Invalid ID format\<close>
  for every payload and write nothing; \<open>update_user\<close> does so for every payload that
  supplies at least one field; for the payload that supplies none it returns
  \<^verbatim>\<open>{"updated": False}\<close> without decoding the id.
\<close>

theorem invalid_id_rejected:
  assumes malformed: "ObjectId_parse rt id_str = None"
  shows "update_event rt (Some s) id_str payload
           = (Inl (HTTPException 400 ''Invalid ID format''), Some s) \<and>
         delete_event rt (Some s) id_str
           = (Inl (HTTPException 400 ''Invalid ID format''), Some s) \<and>
         (\<not> (uu_name up = None \<and> uu_email up = None \<and> uu_mobile up = None \<and> uu_roll up = None) \<longrightarrow>
            update_user rt now (Some s) id_str up
              = (Inl (HTTPException 400 ''Invalid ID format''), Some s)) \<and>
         (uu_name up = None \<and> uu_email up = None \<and> uu_mobile up = None \<and> uu_roll up = None \<longrightarrow>
            update_user rt now (Some s) id_str up = (Inr (Updated False), Some s))"
proof -
  have decoded: "oid rt id_str = Inl (HTTPException 400 ''Invalid ID format'')"
    using malformed by (simp add: oid_def)
  show ?thesis
    by (simp add: update_event_def delete_event_def update_user_def decoded Let_def
        dump_exclude_none_empty)
qed

theorem invalid_id_rejected_witness:
  "update_event example_runtime (Some empty_store) ''not-an-id''
      \<lparr>ev_title = ''Fair'', ev_description = None, ev_date = DateTime 7,
       ev_location = None, ev_created_by_role = teacher\<rparr>
     = (Inl (HTTPException 400 ''Invalid ID format''), Some empty_store) \<and>
   delete_event example_runtime (Some empty_store) ''not-an-id''
     = (Inl (HTTPException 400 ''Invalid ID format''), Some empty_store) \<and>
   update_user example_runtime (DateTime 3) (Some empty_store) ''not-an-id''
      \<lparr>uu_name = Some ''Ann'', uu_email = None, uu_mobile = None, uu_roll = None\<rparr>
     = (Inl (HTTPException 400 ''Invalid ID format''), Some empty_store)"
proof -
  have p: "ObjectId_parse example_runtime ''not-an-id'' = None"
    by (simp add: example_runtime_def parse_hex24_def)
  show ?thesis
    using invalid_id_rejected [OF p, of empty_store
        "\<lparr>ev_title = ''Fair'', ev_description = None, ev_date = DateTime 7,
          ev_location = None, ev_created_by_role = teacher\<rparr>"
        "\<lparr>uu_name = Some ''Ann'', uu_email = None, uu_mobile = None, uu_roll = None\<rparr>"
        "DateTime 3"]
    by simp
qed

subsection \<open>Running the example runtime\<close>

lemma example_runtime_simps:
  "int_truediv example_runtime = (\<lambda>a b. of_int a / of_int b)"
  "float_mul example_runtime = (\<lambda>x y. x * y)"
  "float_of_int example_runtime = of_int"
  "float_round example_runtime = round_digits"
  "float_le example_runtime = (\<lambda>x y. x \<le> y)"
  "py_str example_runtime = example_str"
  "isoformat example_runtime = example_str"
  "ObjectId_parse example_runtime = parse_hex24"
  "cursor_sort example_runtime = example_sort"
  by (simp_all add: example_runtime_def)

lemma round_digits_examples:
  "round_digits 0 2 = 0" "round_digits 75 2 = 75" "round_digits (85 / 2) 2 = 85 / 2"
  by (simp_all add: round_digits_def round_half_even_def Let_def)

lemma hex_string_numeral:
  "hex_string (numeral k) n =
     hex_string (pred_numeral k) (n div 16) @ [''0123456789abcdef'' ! (n mod 16)]"
  by (simp only: numeral_eq_Suc hex_string.simps)

lemma example_ids:
  "py_str example_runtime (VObjectId (ObjectId 0)) = ''000000000000000000000000''"
  "py_str example_runtime (VObjectId (ObjectId 1)) = ''000000000000000000000001''"
  "py_str example_runtime (VObjectId (ObjectId 2)) = ''000000000000000000000002''"
  "py_str example_runtime (VObjectId (ObjectId 3)) = ''000000000000000000000003''"
  by (simp_all add: example_runtime_def hex_string_numeral)

lemma example_ids_Suc:
  "py_str example_runtime (VObjectId (ObjectId (Suc 0))) = ''000000000000000000000001''"
  "py_str example_runtime (VObjectId (ObjectId (Suc (Suc 0)))) = ''000000000000000000000002''"
  "py_str example_runtime (VObjectId (ObjectId (Suc (Suc (Suc 0))))) = ''000000000000000000000003''"
  using example_ids by (simp_all add: numeral_2_eq_2 numeral_3_eq_3)

subsection \<open>Marking attendance\<close>

lemma appended_appended: "appended (appended s c xs) c ys = appended s c (xs @ ys)"
  by (simp add: appended_def)

lemma next_id_appended: "next_id (appended s c ds) = next_id s + length ds"
  by (simp add: appended_def)

lemma colls_appended: "colls (appended s c ds) c' = (if c' = c then colls s c @ ds else colls s c')"
  by (simp add: appended_def)

lemma insert_one_appended:
  "insert_one s c d = (ObjectId (next_id s), appended s c [d(''_id'' \<mapsto> VObjectId (ObjectId (next_id s)))])"
  by (simp add: insert_one_def appended_def Let_def)

lemma stamp_AttendanceRecord:
  "stamp now ''updated_at'' (stamp now ''created_at'' (map_of (AttendanceRecord e d)))
     = map_of (AttendanceRecord e d)"
  by (simp add: stamp_def AttendanceRecord_def)

lemma create_attendance_record:
  "create_document rt now (Some s) attendancerecord (AttendanceRecord e d) =
     (Inr (py_str rt (VObjectId (ObjectId (next_id s)))),
      Some (appended s attendancerecord [stored_record d e (next_id s)]))"
  by (simp add: create_document_def insert_one_appended stamp_AttendanceRecord stored_record_def)

lemma upt_add_Suc: "[n ..< n + Suc k] = n # [Suc n ..< Suc n + k]"
  by (subst upt_rec) simp

lemma mark_entries_store:
  "mark_entries rt now d es acc (Some s) =
     (Inr (acc @ map (\<lambda>k. py_str rt (VObjectId (ObjectId k))) [next_id s ..< next_id s + length es]),
      Some (appended s attendancerecord
              (map2 (stored_record d) es [next_id s ..< next_id s + length es])))"
proof (induction es arbitrary: acc s)
  case Nil
  show ?case by (simp add: appended_def)
next
  case (Cons e es)
  let ?s1 = "appended s attendancerecord [stored_record d e (next_id s)]"
  have u: "[next_id s ..< next_id s + length (e # es)]
      = next_id s # [Suc (next_id s) ..< Suc (next_id s) + length es]"
    using upt_add_Suc [of "next_id s" "length es"] by simp
  have n1: "next_id ?s1 = Suc (next_id s)"
    by (simp add: next_id_appended)
  have "mark_entries rt now d (e # es) acc (Some s)
      = mark_entries rt now d es (acc @ [py_str rt (VObjectId (ObjectId (next_id s)))]) (Some ?s1)"
    by (simp add: create_attendance_record)
  also have "\<dots> = (Inr ((acc @ [py_str rt (VObjectId (ObjectId (next_id s)))]) @
                        map (\<lambda>k. py_str rt (VObjectId (ObjectId k)))
                          [Suc (next_id s) ..< Suc (next_id s) + length es]),
                   Some (appended ?s1 attendancerecord
                     (map2 (stored_record d) es [Suc (next_id s) ..< Suc (next_id s) + length es])))"
    unfolding Cons.IH n1 ..
  also have "\<dots> = (Inr (acc @ map (\<lambda>k. py_str rt (VObjectId (ObjectId k)))
                          [next_id s ..< next_id s + length (e # es)]),
                   Some (appended s attendancerecord
                     (map2 (stored_record d) (e # es) [next_id s ..< next_id s + length (e # es)])))"
    unfolding u by (simp add: appended_appended del: upt_Suc)
  finally show ?case .
qed

lemma stored_record_fields:
  "stored_record d e k =
     [''roll'' \<mapsto> VStr (am_roll e),
      ''attendance_date'' \<mapsto> VDate d,
      ''status'' \<mapsto> VStr (case am_status e of present \<Rightarrow> ''present'' | absent \<Rightarrow> ''absent''),
      ''marked_by_role'' \<mapsto> VStr ''teacher'',
      ''_id'' \<mapsto> VObjectId (ObjectId k)]"
  by (rule ext, cases "am_status e") (simp_all add: stored_record_def AttendanceRecord_def)

lemma stored_record_fun:
  "stored_record d =
     (\<lambda>e k. [''roll'' \<mapsto> VStr (am_roll e),
              ''attendance_date'' \<mapsto> VDate d,
              ''status'' \<mapsto> VStr (case am_status e of present \<Rightarrow> ''present'' | absent \<Rightarrow> ''absent''),
              ''marked_by_role'' \<mapsto> VStr ''teacher'',
              ''_id'' \<mapsto> VObjectId (ObjectId k)])"
  by (intro ext) (simp only: stored_record_fields)

text \<open>
  Claim C6. A \<open>mark_attendance\<close> request with an empty entries list raises 400 and
  leaves the store as it was. With a store configured, a request with \<open>n > 0\<close> entries
  appends to the attendance records, in the order of the entries, one document per
  entry that holds the entry's \<^verbatim>\<open>roll\<close> and \<^verbatim>\<open>status\<close>, the request's date as
  \<^verbatim>\<open>attendance_date\<close>, \<^verbatim>\<open>marked_by_role = "teacher"\<close> and a fresh \<^verbatim>\<open>_id\<close>, changes
  nothing else in the store, and returns \<open>inserted = n\<close> with the \<open>n\<close> identifiers as
  strings.
\<close>

theorem mark_attendance_inserts:
  "(amr_entries p = [] \<longrightarrow>
      mark_attendance rt now db p = (Inl (HTTPException 400 ''No entries to mark''), db)) \<and>
   (amr_entries p \<noteq> [] \<longrightarrow>
      mark_attendance rt now (Some s) p =
        (Inr (Inserted (length (amr_entries p))
               (map (\<lambda>k. py_str rt (VObjectId (ObjectId k)))
                  [next_id s ..< next_id s + length (amr_entries p)])),
         Some (s\<lparr>colls := (colls s)(attendancerecord :=
                    colls s attendancerecord @
                      map2 (\<lambda>e k. [''roll'' \<mapsto> VStr (am_roll e),
                                   ''attendance_date'' \<mapsto> VDate (amr_date p),
                                   ''status'' \<mapsto> VStr (case am_status e of
                                                          present \<Rightarrow> ''present''
                                                        | absent \<Rightarrow> ''absent''),
                                   ''marked_by_role'' \<mapsto> VStr ''teacher'',
                                   ''_id'' \<mapsto> VObjectId (ObjectId k)])
                        (amr_entries p)
                        [next_id s ..< next_id s + length (amr_entries p)]),
                 next_id := next_id s + length (amr_entries p)\<rparr>)))"
proof -
  have "amr_entries p = [] \<longrightarrow>
      mark_attendance rt now db p = (Inl (HTTPException 400 ''No entries to mark''), db)"
    by (simp add: mark_attendance_def)
  moreover have "amr_entries p \<noteq> [] \<longrightarrow>
      mark_attendance rt now (Some s) p =
        (Inr (Inserted (length (amr_entries p))
               (map (\<lambda>k. py_str rt (VObjectId (ObjectId k)))
                  [next_id s ..< next_id s + length (amr_entries p)])),
         Some (appended s attendancerecord
                 (map2 (stored_record (amr_date p)) (amr_entries p)
                    [next_id s ..< next_id s + length (amr_entries p)])))"
    by (simp add: mark_attendance_def mark_entries_store)
  ultimately show ?thesis
    unfolding appended_def stored_record_fun by simp
qed

theorem mark_attendance_inserts_witness:
  "mark_attendance example_runtime (DateTime 5) (Some empty_store)
      \<lparr>amr_date = Date 9, amr_entries = []\<rparr>
     = (Inl (HTTPException 400 ''No entries to mark''), Some empty_store) \<and>
   mark_attendance example_runtime (DateTime 5)
      (Some \<lparr>colls = (\<lambda>c. []), next_id = 0\<rparr>)
      \<lparr>amr_date = Date 9,
       amr_entries = [\<lparr>am_roll = ''R1'', am_status = present\<rparr>,
                      \<lparr>am_roll = ''R2'', am_status = absent\<rparr>]\<rparr>
     = (Inr (Inserted 2 [''000000000000000000000000'', ''000000000000000000000001'']),
        Some \<lparr>colls = (\<lambda>c. [])(attendancerecord :=
                 [[''roll'' \<mapsto> VStr ''R1'', ''attendance_date'' \<mapsto> VDate (Date 9),
                   ''status'' \<mapsto> VStr ''present'', ''marked_by_role'' \<mapsto> VStr ''teacher'',
                   ''_id'' \<mapsto> VObjectId (ObjectId 0)],
                  [''roll'' \<mapsto> VStr ''R2'', ''attendance_date'' \<mapsto> VDate (Date 9),
                   ''status'' \<mapsto> VStr ''absent'', ''marked_by_role'' \<mapsto> VStr ''teacher'',
                   ''_id'' \<mapsto> VObjectId (ObjectId 1)]]),
              next_id = 2\<rparr>)"
proof -
  have "mark_attendance example_runtime (DateTime 5) (Some empty_store)
      \<lparr>amr_date = Date 9, amr_entries = []\<rparr>
     = (Inl (HTTPException 400 ''No entries to mark''), Some empty_store)"
    using mark_attendance_inserts [of "\<lparr>amr_date = Date 9, amr_entries = []\<rparr>"
        example_runtime "DateTime 5" "Some empty_store"]
    by simp
  moreover have "mark_attendance example_runtime (DateTime 5)
      (Some \<lparr>colls = (\<lambda>c. []), next_id = 0\<rparr>)
      \<lparr>amr_date = Date 9,
       amr_entries = [\<lparr>am_roll = ''R1'', am_status = present\<rparr>,
                      \<lparr>am_roll = ''R2'', am_status = absent\<rparr>]\<rparr>
     = (Inr (Inserted 2 [''000000000000000000000000'', ''000000000000000000000001'']),
        Some \<lparr>colls = (\<lambda>c. [])(attendancerecord :=
                 [[''roll'' \<mapsto> VStr ''R1'', ''attendance_date'' \<mapsto> VDate (Date 9),
                   ''status'' \<mapsto> VStr ''present'', ''marked_by_role'' \<mapsto> VStr ''teacher'',
                   ''_id'' \<mapsto> VObjectId (ObjectId 0)],
                  [''roll'' \<mapsto> VStr ''R2'', ''attendance_date'' \<mapsto> VDate (Date 9),
                   ''status'' \<mapsto> VStr ''absent'', ''marked_by_role'' \<mapsto> VStr ''teacher'',
                   ''_id'' \<mapsto> VObjectId (ObjectId 1)]]),
              next_id = 2\<rparr>)"
    using mark_attendance_inserts
      [of "\<lparr>amr_date = Date 9,
            amr_entries = [\<lparr>am_roll = ''R1'', am_status = present\<rparr>,
                           \<lparr>am_roll = ''R2'', am_status = absent\<rparr>]\<rparr>"
        example_runtime "DateTime 5" "Some \<lparr>colls = (\<lambda>c. []), next_id = 0\<rparr>"
        "\<lparr>colls = (\<lambda>c. []), next_id = 0\<rparr>"]
    by (simp add: example_ids example_ids_Suc)
  ultimately show ?thesis by simp
qed

subsection \<open>The attendance summary\<close>

lemma matches_one: "matches [(k, v)] = (\<lambda>d. d k = Some v)"
  by (rule ext) (simp add: matches_def)

lemma matches_two:
  "matches [(k, v), (k', v')] = (\<lambda>d. d k = Some v \<and> d k' = Some v')"
  by (rule ext) (simp add: matches_def)

lemma count_roll_status:
  "count_documents [(''roll'', VStr r), (''status'', VStr st)] coll =
     length (filter (\<lambda>d. d ''roll'' = Some (VStr r) \<and> d ''status'' = Some (VStr st)) coll)"
  by (simp add: count_documents_def matches_two)

lemma find_filter:
  "find P xs = (case filter P xs of [] \<Rightarrow> None | x # _ \<Rightarrow> Some x)"
  by (induction xs) simp_all

lemma find_one_filter:
  "find_one q coll = (case filter (matches q) coll of [] \<Rightarrow> None | x # _ \<Rightarrow> Some x)"
  by (simp add: find_one_def find_filter)

lemma matches_roll: "matches [(''roll'', v)] d = (d ''roll'' = Some v)"
  by (simp add: matches_def)

text \<open>
  Claim C1. With a store configured that holds at most one override record for the roll
  (the data model's invariant), and with \<^verbatim>\<open>round(0.0, 2) == 0.0\<close>: for \<open>P\<close> present and
  \<open>A\<close> absent records of the roll, the summary returns \<open>presentDays = P\<close> and
  \<open>absentDays = A\<close>; if the override of the roll has a numeric \<^verbatim>\<open>manual_percentage\<close>,
  the percentage is that number rounded to 2 places; otherwise it is
  \<^verbatim>\<open>round(P / (P + A) * 100.0, 2)\<close> when \<open>P + A > 0\<close> and \<open>0.0\<close> when \<open>P + A = 0\<close>.
\<close>

theorem attendance_summary_correct:
  fixes rt :: "'f runtime"
  assumes one: "length (filter (\<lambda>d. d ''roll'' = Some (VStr r)) (colls s attendanceoverride)) \<le> 1"
    and zero: "float_round rt (float_of_int rt 0) 2 = float_of_int rt 0"
  shows "let P = length (filter (\<lambda>d. d ''roll'' = Some (VStr r) \<and> d ''status'' = Some (VStr ''present''))
                   (colls s attendancerecord));
             A = length (filter (\<lambda>d. d ''roll'' = Some (VStr r) \<and> d ''status'' = Some (VStr ''absent''))
                   (colls s attendancerecord));
             overrides = filter (\<lambda>d. d ''roll'' = Some (VStr r)) (colls s attendanceoverride)
         in \<exists>pct. attendance_summary rt (Some s) r = (Inr (Summary r P A pct), Some s) \<and>
              (\<forall>ov x. ov \<in> set overrides \<and> number rt (ov ''manual_percentage'') = Some x
                  \<longrightarrow> pct = float_round rt x 2) \<and>
              ((\<forall>ov \<in> set overrides. number rt (ov ''manual_percentage'') = None) \<longrightarrow>
                 (0 < P + A \<longrightarrow>
                    pct = float_round rt
                            (float_mul rt (int_truediv rt (int P) (int (P + A))) (float_of_int rt 100)) 2) \<and>
                 (P + A = 0 \<longrightarrow> pct = float_of_int rt 0))"
proof -
  define ovs where "ovs = filter (\<lambda>d. d ''roll'' = Some (VStr r)) (colls s attendanceoverride)"
  have flt: "filter (matches [(''roll'', VStr r)]) (colls s attendanceoverride) = ovs"
    by (simp add: ovs_def matches_one)
  from one have "length ovs \<le> 1" by (simp add: ovs_def)
  then consider (none) "ovs = []" | (single) ov where "ovs = [ov]"
    by (cases ovs) (auto simp: Suc_le_eq)
  then show ?thesis
  proof cases
    case none
    then have f: "find_one [(''roll'', VStr r)] (colls s attendanceoverride) = None"
      by (simp add: find_one_filter flt)
    show ?thesis
      unfolding Let_def ovs_def [symmetric]
      by (simp add: attendance_summary_def count_roll_status f none zero Let_def)
  next
    case single
    then have f: "find_one [(''roll'', VStr r)] (colls s attendanceoverride) = Some ov"
      by (simp add: find_one_filter flt)
    have "ov \<in> set ovs" using single by simp
    then have "ov ''roll'' = Some (VStr r)" by (simp add: ovs_def)
    then have ne: "ov \<noteq> Map.empty" by auto
    show ?thesis
      unfolding Let_def ovs_def [symmetric]
      by (cases "number rt (ov ''manual_percentage'')")
         (simp_all add: attendance_summary_def count_roll_status f single ne zero Let_def)
  qed
qed

lemma example_counts:
  "length (filter (\<lambda>d. d ''roll'' = Some (VStr ''R1'') \<and> d ''status'' = Some (VStr ''present''))
     (colls attendance_store attendancerecord)) = 3"
  "length (filter (\<lambda>d. d ''roll'' = Some (VStr ''R1'') \<and> d ''status'' = Some (VStr ''absent''))
     (colls attendance_store attendancerecord)) = 1"
  "colls attendance_store attendanceoverride = []"
  "colls override_store attendancerecord = colls attendance_store attendancerecord"
  "colls override_store attendanceoverride =
     [[''roll'' \<mapsto> VStr ''R1'', ''manual_percentage'' \<mapsto> VFloat (85 / 2),
       ''_id'' \<mapsto> VObjectId (ObjectId 4)]]"
  by (simp_all add: override_store_def attendance_store_def appended_def empty_store_def
      example_marks_def stored_record_def AttendanceRecord_def)

theorem attendance_summary_correct_witness:
  "attendance_summary example_runtime (Some attendance_store) ''R1''
     = (Inr (Summary ''R1'' 3 1 75), Some attendance_store) \<and>
   attendance_summary example_runtime (Some override_store) ''R1''
     = (Inr (Summary ''R1'' 3 1 (85 / 2)), Some override_store)"
proof -
  have z: "float_round example_runtime (float_of_int example_runtime 0) 2
             = float_of_int example_runtime 0"
    by (simp add: example_runtime_simps round_digits_examples)
  have a: "length (filter (\<lambda>d. d ''roll'' = Some (VStr ''R1''))
             (colls attendance_store attendanceoverride)) \<le> 1"
    by (simp add: example_counts)
  have b: "length (filter (\<lambda>d. d ''roll'' = Some (VStr ''R1''))
             (colls override_store attendanceoverride)) \<le> 1"
    by (simp add: example_counts)
  have "attendance_summary example_runtime (Some attendance_store) ''R1''
     = (Inr (Summary ''R1'' 3 1 75), Some attendance_store)"
    using attendance_summary_correct [OF a z]
    by (simp add: Let_def example_counts example_runtime_simps round_digits_examples)
  moreover have "attendance_summary example_runtime (Some override_store) ''R1''
     = (Inr (Summary ''R1'' 3 1 (85 / 2)), Some override_store)"
    using attendance_summary_correct [OF b z]
    apply (simp add: Let_def example_counts example_runtime_simps)
    apply (elim exE conjE)
    apply (drule spec [where x = "85 / 2"])
    apply (simp add: round_digits_examples)
    done
  ultimately show ?thesis by simp
qed

subsection \<open>Updating one document\<close>

lemma find_one_SomeD:
  "find_one q ds = Some e \<Longrightarrow> e \<in> set ds \<and> matches q e"
  by (auto simp: find_one_def find_Some_iff)

lemma map_replace_absent:
  "e \<notin> set ds \<Longrightarrow> map (\<lambda>d. if d = e then e' else d) ds = ds"
  by (induction ds) auto

lemma update_one_by_id:
  assumes "distinct (map (\<lambda>d. d ''_id'') ds)" and "e \<in> set ds" and "e ''_id'' = Some i"
  shows "update_one [(''_id'', i)] upd ds
           = (1, map (\<lambda>d. if d = e then e ++ map_of upd else d) ds)"
  using assms
proof (induction ds)
  case Nil
  then show ?case by simp
next
  case (Cons d ds)
  show ?case
  proof (cases "d = e")
    case True
    from Cons.prems(1) True have "e ''_id'' \<notin> (\<lambda>d. d ''_id'') ` set ds" by simp
    then have "e \<notin> set ds" by blast
    with True Cons.prems(3) show ?thesis
      by (simp add: matches_id map_replace_absent)
  next
    case False
    with Cons.prems(2) have in_tl: "e \<in> set ds" by simp
    then have "e ''_id'' \<in> (\<lambda>d. d ''_id'') ` set ds" by blast
    moreover from Cons.prems(1) have "d ''_id'' \<notin> (\<lambda>d. d ''_id'') ` set ds" by simp
    ultimately have "d ''_id'' \<noteq> e ''_id''" by metis
    with Cons.prems(3) have nomatch: "\<not> matches [(''_id'', i)] d"
      by (simp add: matches_id)
    from Cons.prems(1) have "distinct (map (\<lambda>d. d ''_id'') ds)" by simp
    from Cons.IH [OF this in_tl Cons.prems(3)] nomatch False show ?thesis
      by simp
  qed
qed

subsection \<open>Setting a manual percentage\<close>

lemma set_manual_percentage_existing:
  assumes ids: "distinct (map (\<lambda>d. d ''_id'') (colls s attendanceoverride))"
    and found: "find_one [(''roll'', VStr (mp_roll p))] (colls s attendanceoverride) = Some e"
    and has_id: "e ''_id'' = Some i"
  shows "\<exists>r. set_manual_percentage rt now (Some s) p =
           (Inr r, Some (set_coll s attendanceoverride
              (map (\<lambda>d. if d = e then e ++ map_of (ManualPercentageRequest_dump p) else d)
                 (colls s attendanceoverride))))"
proof -
  from find_one_SomeD [OF found] have mem: "e \<in> set (colls s attendanceoverride)"
    and ro: "e ''roll'' = Some (VStr (mp_roll p))"
    by (simp_all add: matches_def)
  have ne: "e \<noteq> Map.empty"
  proof
    assume "e = Map.empty"
    then have "e ''roll'' = None" by simp
    with ro show False by simp
  qed
  show ?thesis
    unfolding set_manual_percentage_def Let_def
    by (simp add: found ne has_id update_one_by_id [OF ids mem has_id])
qed

lemma set_manual_percentage_new_rejected:
  assumes "find_one [(''roll'', VStr (mp_roll p))] (colls s attendanceoverride) = None"
    and "\<not> in_range rt (mp_manual_percentage p)"
  shows "set_manual_percentage rt now (Some s) p = (Inl (Unhandled ValidationError), Some s)"
  using assms by (simp add: set_manual_percentage_def AttendanceOverride_def)

text \<open>
  Claim C2. A request whose \<^verbatim>\<open>manual_percentage\<close> is outside [0, 100] should be rejected
  before anything is written. For a roll that has an override already, the handler
  writes the request's fields with \<^verbatim>\<open>$set\<close> and never builds the validated
  \<^verbatim>\<open>AttendanceOverride\<close>: the request succeeds and the value 150 is stored. For a roll
  without override the same request is rejected by the model's constructor and nothing
  is written, while 42.5 is accepted and stored.
\<close>

theorem set_manual_percentage_unvalidated:
  "(case set_manual_percentage example_runtime (DateTime 5) (Some override_store)
           \<lparr>mp_roll = ''R1'', mp_manual_percentage = 150\<rparr> of
      (Inr r, Some s') \<Rightarrow>
        map (\<lambda>d. (d ''roll'', d ''manual_percentage'')) (colls s' attendanceoverride)
          = [(Some (VStr ''R1''), Some (VFloat 150))]
    | _ \<Rightarrow> False) \<and>
   set_manual_percentage example_runtime (DateTime 5) (Some attendance_store)
      \<lparr>mp_roll = ''R1'', mp_manual_percentage = 150\<rparr>
     = (Inl (Unhandled ValidationError), Some attendance_store) \<and>
   (case set_manual_percentage example_runtime (DateTime 5) (Some attendance_store)
           \<lparr>mp_roll = ''R1'', mp_manual_percentage = 85 / 2\<rparr> of
      (Inr r, Some s') \<Rightarrow>
        map (\<lambda>d. (d ''roll'', d ''manual_percentage'')) (colls s' attendanceoverride)
          = [(Some (VStr ''R1''), Some (VFloat (85 / 2)))]
    | _ \<Rightarrow> False)"
proof -
  have "(case set_manual_percentage example_runtime (DateTime 5) (Some override_store)
           \<lparr>mp_roll = ''R1'', mp_manual_percentage = 150\<rparr> of
      (Inr r, Some s') \<Rightarrow>
        map (\<lambda>d. (d ''roll'', d ''manual_percentage'')) (colls s' attendanceoverride)
          = [(Some (VStr ''R1''), Some (VFloat 150))]
    | _ \<Rightarrow> False)"
    by (simp add: set_manual_percentage_def find_one_def example_counts matches_def
        ManualPercentageRequest_dump_def colls_set_coll Let_def)
  moreover have "set_manual_percentage example_runtime (DateTime 5) (Some attendance_store)
      \<lparr>mp_roll = ''R1'', mp_manual_percentage = 150\<rparr>
     = (Inl (Unhandled ValidationError), Some attendance_store)"
    by (simp add: set_manual_percentage_def find_one_def example_counts AttendanceOverride_def
        in_range_def example_runtime_simps Let_def)
  moreover have "(case set_manual_percentage example_runtime (DateTime 5) (Some attendance_store)
           \<lparr>mp_roll = ''R1'', mp_manual_percentage = 85 / 2\<rparr> of
      (Inr r, Some s') \<Rightarrow>
        map (\<lambda>d. (d ''roll'', d ''manual_percentage'')) (colls s' attendanceoverride)
          = [(Some (VStr ''R1''), Some (VFloat (85 / 2)))]
    | _ \<Rightarrow> False)"
  proof -
    have n: "next_id attendance_store = 4"
      by (simp add: attendance_store_def appended_def empty_store_def example_marks_def)
    have str: "py_str example_runtime (VObjectId (ObjectId 4)) = ''000000000000000000000004''"
      by (simp add: example_runtime_def hex_string_numeral)
    have parse: "ObjectId_parse example_runtime ''000000000000000000000004'' = Some (ObjectId 4)"
      by (simp add: example_runtime_def parse_hex24_def hex_digit_def)
    show ?thesis
      by (simp add: set_manual_percentage_def find_one_def example_counts AttendanceOverride_def
          in_range_def example_runtime_simps(3,5) ManualPercentageRequest_dump_def
          create_document_def insert_one_def stamp_def n str parse Let_def)
  qed
  ultimately show ?thesis by simp
qed

subsection \<open>Demo login\<close>

lemma role_str_case:
  "role_str r = (case r of student \<Rightarrow> ''student'' | teacher \<Rightarrow> ''teacher'')"
  by (cases r) simp_all

lemma opt_str_case: "opt_str v = (case v of None \<Rightarrow> VNone | Some x \<Rightarrow> VStr x)"
  by (cases v) simp_all

lemma demo_login_found:
  assumes ids: "distinct (map (\<lambda>d. d ''_id'') (colls s campususer))"
    and found: "find_one [(''email'', VStr (dl_email p))] (colls s campususer) = Some e"
    and has_id: "e ''_id'' = Some i"
  shows "\<exists>r. demo_login rt now (Some s) p =
           (Inr r, Some (set_coll s campususer
              (map (\<lambda>d. if d = e
                          then e ++ map_of (DemoLoginRequest_dump p @ [(''updated_at'', VDateTime now)])
                          else d) (colls s campususer))))"
proof -
  from find_one_SomeD [OF found] have mem: "e \<in> set (colls s campususer)"
    and em: "e ''email'' = Some (VStr (dl_email p))"
    by (simp_all add: matches_def)
  have ne: "e \<noteq> Map.empty"
  proof
    assume "e = Map.empty"
    then have "e ''email'' = None" by simp
    with em show False by simp
  qed
  show ?thesis
    unfolding demo_login_def Let_def
    by (simp add: found ne has_id update_one_by_id [OF ids mem has_id])
qed


lemma login_data_lookup:
  "map_of (DemoLoginRequest_dump p @ [(''updated_at'', VDateTime now)]) k =
     (if k = ''role'' then Some (VStr (role_str (dl_role p)))
      else if k = ''name'' then Some (VStr (dl_name p))
      else if k = ''email'' then Some (VStr (dl_email p))
      else if k = ''mobile'' then Some (opt_str (dl_mobile p))
      else if k = ''roll'' then Some (opt_str (dl_roll p))
      else if k = ''updated_at'' then Some (VDateTime now)
      else None)"
  by (simp add: DemoLoginRequest_dump_def)

lemma login_data_add:
  "(e ++ map_of (DemoLoginRequest_dump p @ [(''updated_at'', VDateTime now)])) k =
     (if k = ''role'' then Some (VStr (role_str (dl_role p)))
      else if k = ''name'' then Some (VStr (dl_name p))
      else if k = ''email'' then Some (VStr (dl_email p))
      else if k = ''mobile'' then Some (opt_str (dl_mobile p))
      else if k = ''roll'' then Some (opt_str (dl_roll p))
      else if k = ''updated_at'' then Some (VDateTime now)
      else e k)"
  unfolding map_add_def login_data_lookup by simp

text \<open>
  Claim C3, as stated, says that a demo login for an existing email leaves a stored
  \<^verbatim>\<open>mobile\<close> or \<^verbatim>\<open>roll\<close> alone when the request omits it. The handler sets all the
  fields of \<^verbatim>\<open>payload.model_dump()\<close>, in which an omitted field is \<^verbatim>\<open>None\<close>: the stored
  mobile number 555 becomes null.
\<close>

theorem demo_login_patch_counterexample:
  "map (\<lambda>d. d ''mobile'') (colls user_store campususer) = [Some (VStr ''555'')] \<and>
   dl_mobile ann_short = None \<and>
   (case demo_login example_runtime (DateTime 5) (Some user_store) ann_short of
      (Inr r, Some s') \<Rightarrow> map (\<lambda>d. d ''mobile'') (colls s' campususer) = [Some VNone]
    | _ \<Rightarrow> False)"
  by (simp add: user_store_def appended_def empty_store_def ann_short_def demo_login_def
      find_one_def matches_def DemoLoginRequest_dump_def colls_set_coll Let_def)

text \<open>
  Claim C3, amended. For a demo login whose email is found (on a store whose documents
  have distinct identifiers), the record found gets the request's \<^verbatim>\<open>role\<close>, \<^verbatim>\<open>name\<close>,
  \<^verbatim>\<open>email\<close>, \<^verbatim>\<open>mobile\<close> and \<^verbatim>\<open>roll\<close>, the last two null when the request omits them,
  and the clock as \<^verbatim>\<open>updated_at\<close>; every other field of that record, every other
  record and every other collection stay as they were.
\<close>

theorem demo_login_overwrites:
  assumes ids: "distinct (map (\<lambda>d. d ''_id'') (colls s campususer))"
    and found: "find_one [(''email'', VStr (dl_email p))] (colls s campususer) = Some e"
    and has_id: "e ''_id'' = Some i"
  shows "\<exists>r e'. demo_login rt now (Some s) p =
            (Inr r, Some (set_coll s campususer
               (map (\<lambda>d. if d = e then e' else d) (colls s campususer)))) \<and>
          e' ''role'' = Some (VStr (case dl_role p of student \<Rightarrow> ''student'' | teacher \<Rightarrow> ''teacher'')) \<and>
          e' ''name'' = Some (VStr (dl_name p)) \<and>
          e' ''email'' = Some (VStr (dl_email p)) \<and>
          e' ''mobile'' = Some (case dl_mobile p of None \<Rightarrow> VNone | Some m \<Rightarrow> VStr m) \<and>
          e' ''roll'' = Some (case dl_roll p of None \<Rightarrow> VNone | Some x \<Rightarrow> VStr x) \<and>
          e' ''updated_at'' = Some (VDateTime now) \<and>
          (\<forall>k. k \<notin> {''role'', ''name'', ''email'', ''mobile'', ''roll'', ''updated_at''}
                \<longrightarrow> e' k = e k)"
proof -
  let ?e' = "e ++ map_of (DemoLoginRequest_dump p @ [(''updated_at'', VDateTime now)])"
  from demo_login_found [OF ids found has_id, of rt now]
  obtain r where run: "demo_login rt now (Some s) p =
           (Inr r, Some (set_coll s campususer
              (map (\<lambda>d. if d = e then ?e' else d) (colls s campususer))))"
    by blast
  have f1: "?e' ''role'' = Some (VStr (case dl_role p of student \<Rightarrow> ''student'' | teacher \<Rightarrow> ''teacher''))"
    by (subst login_data_add) (simp add: role_str_case)
  have f2: "?e' ''name'' = Some (VStr (dl_name p))"
    by (subst login_data_add) simp
  have f3: "?e' ''email'' = Some (VStr (dl_email p))"
    by (subst login_data_add) simp
  have f4: "?e' ''mobile'' = Some (case dl_mobile p of None \<Rightarrow> VNone | Some m \<Rightarrow> VStr m)"
    by (subst login_data_add) (simp add: opt_str_case)
  have f5: "?e' ''roll'' = Some (case dl_roll p of None \<Rightarrow> VNone | Some x \<Rightarrow> VStr x)"
    by (subst login_data_add) (simp add: opt_str_case)
  have f6: "?e' ''updated_at'' = Some (VDateTime now)"
    by (subst login_data_add) simp
  have frame: "\<forall>k. k \<notin> {''role'', ''name'', ''email'', ''mobile'', ''roll'', ''updated_at''}
                \<longrightarrow> ?e' k = e k"
    by (subst login_data_add) simp
  show ?thesis
    by (intro exI [of _ r] exI [of _ ?e'] conjI run f1 f2 f3 f4 f5 f6 frame)
qed

lemma user_store_users:
  "colls user_store campususer =
     [[''role'' \<mapsto> VStr ''student'', ''name'' \<mapsto> VStr ''Ann'',
       ''email'' \<mapsto> VStr ''ann@campus.edu'', ''mobile'' \<mapsto> VStr ''555'',
       ''roll'' \<mapsto> VStr ''R1'', ''_id'' \<mapsto> VObjectId (ObjectId 0)]]"
  by (simp add: user_store_def appended_def empty_store_def)

theorem demo_login_overwrites_witness:
  "\<exists>r e'. demo_login example_runtime (DateTime 5) (Some user_store) ann_short =
             (Inr r, Some (set_coll user_store campususer [e'])) \<and>
          e' ''name'' = Some (VStr ''Ann'') \<and>
          e' ''mobile'' = Some VNone \<and>
          e' ''roll'' = Some VNone \<and>
          e' ''updated_at'' = Some (VDateTime (DateTime 5)) \<and>
          e' ''_id'' = Some (VObjectId (ObjectId 0))"
proof -
  let ?e = "[''role'' \<mapsto> VStr ''student'', ''name'' \<mapsto> VStr ''Ann'',
       ''email'' \<mapsto> VStr ''ann@campus.edu'', ''mobile'' \<mapsto> VStr ''555'',
       ''roll'' \<mapsto> VStr ''R1'', ''_id'' \<mapsto> VObjectId (ObjectId 0)] :: rat document"
  have ids: "distinct (map (\<lambda>d. d ''_id'') (colls user_store campususer))"
    by (simp add: user_store_users)
  have found: "find_one [(''email'', VStr (dl_email ann_short))] (colls user_store campususer)
                 = Some ?e"
    by (simp add: user_store_users find_one_def matches_def ann_short_def)
  have has_id: "?e ''_id'' = Some (VObjectId (ObjectId 0))"
    by simp
  from demo_login_overwrites [OF ids found has_id, of example_runtime "DateTime 5"]
  obtain r e' where
    run: "demo_login example_runtime (DateTime 5) (Some user_store) ann_short =
            (Inr r, Some (set_coll user_store campususer
               (map (\<lambda>d. if d = ?e then e' else d) (colls user_store campususer))))"
    and name: "e' ''name'' = Some (VStr (dl_name ann_short))"
    and mobile: "e' ''mobile'' = Some (case dl_mobile ann_short of None \<Rightarrow> VNone | Some m \<Rightarrow> VStr m)"
    and roll: "e' ''roll'' = Some (case dl_roll ann_short of None \<Rightarrow> VNone | Some x \<Rightarrow> VStr x)"
    and stamp: "e' ''updated_at'' = Some (VDateTime (DateTime 5))"
    and frame: "\<forall>k. k \<notin> {''role'', ''name'', ''email'', ''mobile'', ''roll'', ''updated_at''}
                  \<longrightarrow> e' k = ?e k"
    by blast
  have coll: "map (\<lambda>d. if d = ?e then e' else d) (colls user_store campususer) = [e']"
    by (simp add: user_store_users)
  from frame have "e' ''_id'' = ?e ''_id''" by simp
  then have id: "e' ''_id'' = Some (VObjectId (ObjectId 0))" by simp
  from run coll name mobile roll stamp id show ?thesis
    by (intro exI [of _ r] exI [of _ e']) (simp add: ann_short_def)
qed

text \<open>
  Claim C4, as stated, promises exactly one user record for the email after two demo
  logins, on any store. \<open>update_user\<close> can give a second user an email that is in use,
  and \<open>demo_login\<close> only updates the first record it finds: starting from the empty
  store, two users log in, the second is given the email of the first, and after two
  more demo logins for that email two records carry it.
\<close>

theorem demo_login_twice_counterexample:
  "(let db1 = snd (demo_login example_runtime (DateTime 1) (Some empty_store) ann_full);
        db2 = snd (demo_login example_runtime (DateTime 2) db1 bob);
        db3 = snd (update_user example_runtime (DateTime 3) db2 ''000000000000000000000001''
                     \<lparr>uu_name = None, uu_email = Some ''ann@campus.edu'',
                      uu_mobile = None, uu_roll = None\<rparr>);
        db4 = snd (demo_login example_runtime (DateTime 4) db3 ann_short);
        db5 = snd (demo_login example_runtime (DateTime 5) db4 ann_short)
    in case db5 of
         None \<Rightarrow> 0
       | Some s \<Rightarrow> length (filter (\<lambda>d. d ''email'' = Some (VStr ''ann@campus.edu''))
                             (colls s campususer))) = 2"
  by (simp add: demo_login_def update_user_def create_document_def insert_one_def stamp_def
      CampusUser_def DemoLoginRequest_dump_def UpdateUserRequest_dump_exclude_none_def
      List.map_filter_def find_one_def matches_def oid_def set_coll_def
      ann_full_def ann_short_def bob_def empty_store_def example_runtime_def
      parse_hex24_def hex_digit_def hex_string_numeral Let_def
      split: option.split)

lemma CampusUser_login_data:
  "CampusUser (DemoLoginRequest_dump p @ [(''updated_at'', v)]) = DemoLoginRequest_dump p"
  by (simp add: CampusUser_def DemoLoginRequest_dump_def)

lemma dump_lookup:
  "map_of (DemoLoginRequest_dump p) k =
     (if k = ''role'' then Some (VStr (role_str (dl_role p)))
      else if k = ''name'' then Some (VStr (dl_name p))
      else if k = ''email'' then Some (VStr (dl_email p))
      else if k = ''mobile'' then Some (opt_str (dl_mobile p))
      else if k = ''roll'' then Some (opt_str (dl_roll p))
      else None)"
  by (simp add: DemoLoginRequest_dump_def)

lemma stamp_dump:
  "stamp now ''updated_at'' (stamp now ''created_at'' (map_of (DemoLoginRequest_dump p)))
     = map_of (DemoLoginRequest_dump p)"
  by (simp add: stamp_def dump_lookup)

lemma create_user:
  "create_document rt now (Some s) campususer (DemoLoginRequest_dump p) =
     (Inr (py_str rt (VObjectId (ObjectId (next_id s)))),
      Some (appended s campususer
              [(map_of (DemoLoginRequest_dump p))(''_id'' \<mapsto> VObjectId (ObjectId (next_id s)))]))"
  by (simp add: create_document_def insert_one_appended stamp_dump)

lemma matches_dump_iff:
  "matches (DemoLoginRequest_dump p) u =
     (u ''role'' = Some (VStr (role_str (dl_role p))) \<and>
      u ''name'' = Some (VStr (dl_name p)) \<and>
      u ''email'' = Some (VStr (dl_email p)) \<and>
      u ''mobile'' = Some (opt_str (dl_mobile p)) \<and>
      u ''roll'' = Some (opt_str (dl_roll p)))"
  by (simp add: matches_def DemoLoginRequest_dump_def)

lemma filter_replace:
  assumes "filter P ds = [e]" and "P e'"
  shows "filter P (map (\<lambda>d. if d = e then e' else d) ds) = [e']"
proof -
  from assms(1) have "e \<in> set (filter P ds)" by simp
  then have Pe: "P e" by simp
  have "filter P (map (\<lambda>d. if d = e then e' else d) ds)
      = map (\<lambda>d. if d = e then e' else d) (filter (P \<circ> (\<lambda>d. if d = e then e' else d)) ds)"
    by (simp add: filter_map)
  also have "filter (P \<circ> (\<lambda>d. if d = e then e' else d)) ds = filter P ds"
    using Pe assms(2) by (intro filter_cong) auto
  finally show ?thesis using assms(1) by simp
qed

lemma id_below_Suc: "id_below m v \<Longrightarrow> id_below (Suc m) v"
  by (induction m v rule: id_below.induct) simp_all

lemma id_below_self: "\<not> id_below m (Some (VObjectId (ObjectId m)))"
  by simp

lemma wf_coll_insert:
  assumes "wf_coll s c"
  shows "wf_coll (appended s c [d(''_id'' \<mapsto> VObjectId (ObjectId (next_id s)))]) c"
proof -
  let ?f = "\<lambda>d. d ''_id''"
  from assms have dist: "distinct (map ?f (colls s c))"
    and below: "list_all (\<lambda>d. id_below (next_id s) (d ''_id'')) (colls s c)"
    by (simp_all add: wf_coll_def)
  have fresh: "Some (VObjectId (ObjectId (next_id s))) \<notin> ?f ` set (colls s c)"
  proof
    assume "Some (VObjectId (ObjectId (next_id s))) \<in> ?f ` set (colls s c)"
    then obtain x where "x \<in> set (colls s c)"
      and "x ''_id'' = Some (VObjectId (ObjectId (next_id s)))"
      by auto
    with below have "id_below (next_id s) (Some (VObjectId (ObjectId (next_id s))))"
      by (auto simp: list_all_iff)
    then show False by simp
  qed
  have mono: "list_all (\<lambda>d. id_below (Suc (next_id s)) (d ''_id'')) (colls s c)"
    using below by (auto simp: list_all_iff intro: id_below_Suc)
  show ?thesis
    using dist fresh mono
    by (simp add: wf_coll_def colls_appended next_id_appended)
qed

lemma wf_coll_replace:
  assumes "wf_coll s c" and "e' ''_id'' = e ''_id''"
  shows "wf_coll (set_coll s c (map (\<lambda>d. if d = e then e' else d) (colls s c))) c"
proof -
  have ids: "map (\<lambda>d. d ''_id'') (map (\<lambda>d. if d = e then e' else d) ds)
               = map (\<lambda>d. d ''_id'') ds" for ds
    using assms(2) by (induction ds) auto
  have below: "list_all (\<lambda>d. id_below (next_id s) (d ''_id''))
          (map (\<lambda>d. if d = e then e' else d) ds)
        = list_all (\<lambda>d. id_below (next_id s) (d ''_id'')) ds" for ds
    using assms(2) by (induction ds) auto
  have same: "colls (set_coll s c ds) c = ds" for ds
    by (simp add: colls_set_coll)
  from assms(1) show ?thesis
    unfolding wf_coll_def same next_id_set_coll ids below .
qed

lemma wf_coll_has_id:
  assumes "wf_coll s c" and "e \<in> set (colls s c)"
  shows "\<exists>i. e ''_id'' = Some i"
proof -
  from assms have "id_below (next_id s) (e ''_id'')"
    by (simp add: wf_coll_def list_all_iff)
  then show ?thesis by (cases "e ''_id''") simp_all
qed

lemma demo_login_step_new:
  assumes wf: "wf_coll s campususer"
    and new: "filter (\<lambda>d. d ''email'' = Some (VStr (dl_email p))) (colls s campususer) = []"
  shows "\<exists>r s' u. demo_login rt now (Some s) p = (r, Some s') \<and> wf_coll s' campususer \<and>
           filter (\<lambda>d. d ''email'' = Some (VStr (dl_email p))) (colls s' campususer) = [u] \<and>
           matches (DemoLoginRequest_dump p) u"
proof -
  let ?P = "\<lambda>d. d ''email'' = Some (VStr (dl_email p))"
  let ?u = "(map_of (DemoLoginRequest_dump p))(''_id'' \<mapsto> VObjectId (ObjectId (next_id s)))"
  let ?s' = "appended s campususer [?u]"
  have flt: "filter (matches [(''email'', VStr (dl_email p))]) (colls s campususer)
               = filter ?P (colls s campususer)"
    by (simp add: matches_one)
  have none: "find_one [(''email'', VStr (dl_email p))] (colls s campususer) = None"
    by (simp add: find_one_filter flt new)
  have run: "\<exists>r. demo_login rt now (Some s) p = (r, Some ?s')"
    unfolding demo_login_def Let_def
    by (cases "ObjectId_parse rt (py_str rt (VObjectId (ObjectId (next_id s))))")
       (simp_all add: none CampusUser_login_data create_user)
  have wf': "wf_coll ?s' campususer"
    by (rule wf_coll_insert [OF wf])
  have Pu: "?P ?u"
    by (simp add: dump_lookup)
  have only: "filter ?P (colls ?s' campususer) = [?u]"
    using new Pu by (simp add: colls_appended)
  have fields: "matches (DemoLoginRequest_dump p) ?u"
    by (simp add: matches_dump_iff dump_lookup)
  from run wf' only fields show ?thesis by blast
qed

lemma demo_login_step_old:
  assumes wf: "wf_coll s campususer"
    and old: "filter (\<lambda>d. d ''email'' = Some (VStr (dl_email p))) (colls s campususer) = [e]"
  shows "\<exists>r s' u. demo_login rt now (Some s) p = (Inr r, Some s') \<and> wf_coll s' campususer \<and>
           filter (\<lambda>d. d ''email'' = Some (VStr (dl_email p))) (colls s' campususer) = [u] \<and>
           matches (DemoLoginRequest_dump p) u"
proof -
  let ?P = "\<lambda>d. d ''email'' = Some (VStr (dl_email p))"
  let ?e' = "e ++ map_of (DemoLoginRequest_dump p @ [(''updated_at'', VDateTime now)])"
  let ?s' = "set_coll s campususer (map (\<lambda>d. if d = e then ?e' else d) (colls s campususer))"
  have flt: "filter (matches [(''email'', VStr (dl_email p))]) (colls s campususer)
               = filter ?P (colls s campususer)"
    by (simp add: matches_one)
  have some: "find_one [(''email'', VStr (dl_email p))] (colls s campususer) = Some e"
    by (simp add: find_one_filter flt old)
  have "e \<in> set (filter ?P (colls s campususer))" using old by simp
  then have mem: "e \<in> set (colls s campususer)" by simp
  from wf_coll_has_id [OF wf mem] obtain i where has_id: "e ''_id'' = Some i" ..
  from wf have ids: "distinct (map (\<lambda>d. d ''_id'') (colls s campususer))"
    by (simp add: wf_coll_def)
  from demo_login_found [OF ids some has_id, of rt now]
  obtain r where run: "demo_login rt now (Some s) p = (Inr r, Some ?s')" by blast
  have same_id: "?e' ''_id'' = e ''_id''"
    by (subst login_data_add) simp
  have wf': "wf_coll ?s' campususer"
    using wf same_id by (rule wf_coll_replace [where e = e])
  have Pe': "?P ?e'"
    by (subst login_data_add) simp
  have only: "filter ?P (colls ?s' campususer) = [?e']"
    using filter_replace [of ?P "colls s campususer" e ?e', OF old Pe']
    by (simp add: colls_set_coll)
  have fields: "matches (DemoLoginRequest_dump p) ?e'"
    unfolding matches_dump_iff
    by (intro conjI; subst login_data_add; simp)
  from run wf' only fields show ?thesis by blast
qed

lemma demo_login_step:
  assumes wf: "wf_coll s campususer"
    and one: "length (filter (\<lambda>d. d ''email'' = Some (VStr (dl_email p))) (colls s campususer)) \<le> 1"
  shows "\<exists>r s' u. demo_login rt now (Some s) p = (r, Some s') \<and> wf_coll s' campususer \<and>
           filter (\<lambda>d. d ''email'' = Some (VStr (dl_email p))) (colls s' campususer) = [u] \<and>
           matches (DemoLoginRequest_dump p) u"
proof -
  let ?P = "\<lambda>d. d ''email'' = Some (VStr (dl_email p))"
  from one consider (new) "filter ?P (colls s campususer) = []"
    | (old) e where "filter ?P (colls s campususer) = [e]"
    by (cases "filter ?P (colls s campususer)") (auto simp: Suc_le_eq)
  then show ?thesis
  proof cases
    case new
    from demo_login_step_new [OF wf new, of rt now] show ?thesis .
  next
    case old
    from demo_login_step_old [OF wf old, of rt now] show ?thesis by blast
  qed
qed

text \<open>
  Claim C4, amended. On a configured store whose users have distinct identifiers handed
  out by the server and in which at most one user record has the email: after two demo
  logins in a row with that email, the second of which returns a user record, exactly
  one user record has the email, and its \<^verbatim>\<open>role\<close>, \<^verbatim>\<open>name\<close>, \<^verbatim>\<open>email\<close>, \<^verbatim>\<open>mobile\<close> and
  \<^verbatim>\<open>roll\<close> are those of the second payload (null where it omits them).
\<close>

theorem demo_login_twice:
  assumes wf: "wf_coll s campususer"
    and one: "length (filter (\<lambda>d. d ''email'' = Some (VStr (dl_email p1))) (colls s campususer)) \<le> 1"
    and same: "dl_email p2 = dl_email p1"
  shows "\<exists>r1 s1 r2 s2 u.
           demo_login rt t1 (Some s) p1 = (r1, Some s1) \<and>
           demo_login rt t2 (Some s1) p2 = (Inr r2, Some s2) \<and>
           filter (\<lambda>d. d ''email'' = Some (VStr (dl_email p2))) (colls s2 campususer) = [u] \<and>
           u ''role'' = Some (VStr (case dl_role p2 of student \<Rightarrow> ''student'' | teacher \<Rightarrow> ''teacher'')) \<and>
           u ''name'' = Some (VStr (dl_name p2)) \<and>
           u ''email'' = Some (VStr (dl_email p2)) \<and>
           u ''mobile'' = Some (case dl_mobile p2 of None \<Rightarrow> VNone | Some m \<Rightarrow> VStr m) \<and>
           u ''roll'' = Some (case dl_roll p2 of None \<Rightarrow> VNone | Some x \<Rightarrow> VStr x)"
proof -
  from demo_login_step [OF wf one, of rt t1]
  obtain r1 s1 u1 where first: "demo_login rt t1 (Some s) p1 = (r1, Some s1)"
    and wf1: "wf_coll s1 campususer"
    and only1: "filter (\<lambda>d. d ''email'' = Some (VStr (dl_email p1))) (colls s1 campususer) = [u1]"
    by blast
  from only1 same
  have old1: "filter (\<lambda>d. d ''email'' = Some (VStr (dl_email p2))) (colls s1 campususer) = [u1]"
    by simp
  from demo_login_step_old [OF wf1 old1, of rt t2]
  obtain r2 s2 u where second: "demo_login rt t2 (Some s1) p2 = (Inr r2, Some s2)"
    and only2: "filter (\<lambda>d. d ''email'' = Some (VStr (dl_email p2))) (colls s2 campususer) = [u]"
    and fields: "matches (DemoLoginRequest_dump p2) u"
    by blast
  from fields have f: "u ''role'' = Some (VStr (case dl_role p2 of student \<Rightarrow> ''student'' | teacher \<Rightarrow> ''teacher''))"
    "u ''name'' = Some (VStr (dl_name p2))"
    "u ''email'' = Some (VStr (dl_email p2))"
    "u ''mobile'' = Some (case dl_mobile p2 of None \<Rightarrow> VNone | Some m \<Rightarrow> VStr m)"
    "u ''roll'' = Some (case dl_roll p2 of None \<Rightarrow> VNone | Some x \<Rightarrow> VStr x)"
    by (simp_all add: matches_dump_iff role_str_case opt_str_case)
  show ?thesis
    by (intro exI [of _ r1] exI [of _ s1] exI [of _ r2] exI [of _ s2] exI [of _ u]
        conjI first second only2 f)
qed

theorem demo_login_twice_witness:
  "\<exists>r1 s1 r2 s2 u.
     demo_login example_runtime (DateTime 1) (Some empty_store) ann_full = (r1, Some s1) \<and>
     demo_login example_runtime (DateTime 2) (Some s1) ann_short = (Inr r2, Some s2) \<and>
     filter (\<lambda>d. d ''email'' = Some (VStr ''ann@campus.edu'')) (colls s2 campususer) = [u] \<and>
     u ''name'' = Some (VStr ''Ann'') \<and> u ''mobile'' = Some VNone \<and> u ''roll'' = Some VNone"
proof -
  have wf: "wf_coll (empty_store :: rat store) campususer"
    by (simp add: wf_coll_def empty_store_def)
  have one: "length (filter (\<lambda>d. d ''email'' = Some (VStr (dl_email ann_full)))
               (colls (empty_store :: rat store) campususer)) \<le> 1"
    by (simp add: empty_store_def)
  have same: "dl_email ann_short = dl_email ann_full"
    by (simp add: ann_short_def ann_full_def)
  from demo_login_twice [OF wf one same, of example_runtime "DateTime 1" "DateTime 2"]
  obtain r1 s1 r2 s2 u where
    first: "demo_login example_runtime (DateTime 1) (Some empty_store) ann_full = (r1, Some s1)"
    and second: "demo_login example_runtime (DateTime 2) (Some s1) ann_short = (Inr r2, Some s2)"
    and only: "filter (\<lambda>d. d ''email'' = Some (VStr (dl_email ann_short))) (colls s2 campususer) = [u]"
    and name: "u ''name'' = Some (VStr (dl_name ann_short))"
    and mobile: "u ''mobile'' = Some (case dl_mobile ann_short of None \<Rightarrow> VNone | Some m \<Rightarrow> VStr m)"
    and roll: "u ''roll'' = Some (case dl_roll ann_short of None \<Rightarrow> VNone | Some x \<Rightarrow> VStr x)"
    by blast
  from only have only': "filter (\<lambda>d. d ''email'' = Some (VStr ''ann@campus.edu''))
                            (colls s2 campususer) = [u]"
    by (simp add: ann_short_def)
  from name mobile roll have "u ''name'' = Some (VStr ''Ann'')" "u ''mobile'' = Some VNone"
    "u ''roll'' = Some VNone"
    by (simp_all add: ann_short_def)
  with first second only' show ?thesis by blast
qed

end
